theory Spec2Isabelle
  imports
    Main
    "HOL-Library.Word"
    "HOL-Library.Char_ord"
    "HOL-Library.List_Lexorder"
    "HOL-Library.Product_Lexorder"
begin

unbundle bit_operations_syntax

section \<open>The ordered index (metanode/btree\_memory.go)\<close>

text \<open>
  Modelled from the spec: the package util/btree (Google's B-tree) that
  \<^verbatim>\<open>BTree.tree\<close> points to is not among the sources. Section 4.1 of the spec
  describes it as a range-scannable map from a comparable key to a value with
  \<^verbatim>\<open>get\<close>, \<open>insertOrReplace\<close>, \<open>delete\<close>, \<open>has\<close> and \<open>ascendRange\<close>,
  iterated in strict key order. The index is the list of its items in key order;
  \<open>key\<close> stands for the item's \<^verbatim>\<open>Less\<close> method: two items are the same entry
  when their keys are equal. A lookup takes the key itself where the code builds a
  probe item that carries nothing but the key.
\<close>

type_synonym 'a btree = "'a list"

definition tree_Get :: "('a \<Rightarrow> 'k) \<Rightarrow> 'a btree \<Rightarrow> 'k \<Rightarrow> 'a option" where
  "tree_Get key t k = find (\<lambda>x. key x = k) t"

definition tree_Has :: "('a \<Rightarrow> 'k) \<Rightarrow> 'a btree \<Rightarrow> 'k \<Rightarrow> bool" where
  "tree_Has key t k = (tree_Get key t k \<noteq> None)"

fun tree_put :: "('a \<Rightarrow> 'k::linorder) \<Rightarrow> 'a \<Rightarrow> 'a btree \<Rightarrow> 'a btree" where
  "tree_put key x [] = [x]"
| "tree_put key x (y # ys) =
     (if key x < key y then x # y # ys
      else if key x = key y then x # ys
      else y # tree_put key x ys)"

text \<open>The B-tree's own \<^verbatim>\<open>ReplaceOrInsert\<close>: the item replaced, if any, is returned.\<close>

definition tree_ReplaceOrInsert ::
  "('a \<Rightarrow> 'k::linorder) \<Rightarrow> 'a btree \<Rightarrow> 'a \<Rightarrow> 'a option \<times> 'a btree" where
  "tree_ReplaceOrInsert key t x = (tree_Get key t (key x), tree_put key x t)"

definition tree_Delete :: "('a \<Rightarrow> 'k) \<Rightarrow> 'a btree \<Rightarrow> 'k \<Rightarrow> 'a option \<times> 'a btree" where
  "tree_Delete key t k = (tree_Get key t k, filter (\<lambda>x. key x \<noteq> k) t)"

text \<open>
  \<^verbatim>\<open>AscendRange(greaterOrEqual, lessThan, iterator)\<close> visits the items of
  \<open>[greaterOrEqual, lessThan)\<close> in ascending order. The items visited are listed
  here; the iterator's early stop is in the caller's loop.
\<close>

definition tree_AscendRange :: "('a \<Rightarrow> 'k::linorder) \<Rightarrow> 'a btree \<Rightarrow> 'k \<Rightarrow> 'k \<Rightarrow> 'a list" where
  "tree_AscendRange key t greaterOrEqual lessThan1 =
     takeWhile (\<lambda>x. key x < lessThan1) (dropWhile (\<lambda>x. key x < greaterOrEqual) t)"

text \<open>
  An item reached through \<^verbatim>\<open>CopyGet\<close> is a pointer into the index: what the
  handler writes through it is written to the entry itself.
\<close>

definition tree_modify :: "('a \<Rightarrow> 'k) \<Rightarrow> 'a btree \<Rightarrow> 'k \<Rightarrow> ('a \<Rightarrow> 'a) \<Rightarrow> 'a btree" where
  "tree_modify key t k f = map (\<lambda>x. if key x = k then f x else x) t"

definition tree_ok :: "('a \<Rightarrow> 'k::linorder) \<Rightarrow> 'a btree \<Rightarrow> bool" where
  "tree_ok key t = sorted_wrt (<) (map key t)"

subsection \<open>The wrapper \<^verbatim>\<open>BTree\<close>\<close>

text \<open>
  The wrapper takes the lock and calls the B-tree; one handler runs at a time, so
  the lock has no effect on the result.
\<close>

definition Get :: "('a \<Rightarrow> 'k) \<Rightarrow> 'a btree \<Rightarrow> 'k \<Rightarrow> 'a option" where
  "Get key b k = tree_Get key b k"

definition CopyGet :: "('a \<Rightarrow> 'k) \<Rightarrow> 'a btree \<Rightarrow> 'k \<Rightarrow> 'a option" where
  "CopyGet key b k = tree_Get key b k"

definition Has :: "('a \<Rightarrow> 'k) \<Rightarrow> 'a btree \<Rightarrow> 'k \<Rightarrow> bool" where
  "Has key b k = tree_Has key b k"

definition Delete :: "('a \<Rightarrow> 'k) \<Rightarrow> 'a btree \<Rightarrow> 'k \<Rightarrow> 'a option \<times> 'a btree" where
  "Delete key b k = tree_Delete key b k"

text \<open>
  \<^verbatim>\<open>ReplaceOrInsert(key, replace)\<close> returns \<open>(item, ok)\<close>; the third component
  is the index afterwards.
\<close>

definition ReplaceOrInsert ::
  "('a \<Rightarrow> 'k::linorder) \<Rightarrow> 'a btree \<Rightarrow> 'a \<Rightarrow> bool \<Rightarrow> 'a option \<times> bool \<times> 'a btree" where
  "ReplaceOrInsert key b k replace =
     (if replace then
        (case tree_ReplaceOrInsert key b k of (item, b') \<Rightarrow> (item, True, b'))
      else
        (case tree_Get key b (key k) of
           None \<Rightarrow> (case tree_ReplaceOrInsert key b k of (item, b') \<Rightarrow> (item, True, b'))
         | Some item \<Rightarrow> (Some item, False, b)))"

definition AscendRange :: "('a \<Rightarrow> 'k::linorder) \<Rightarrow> 'a btree \<Rightarrow> 'k \<Rightarrow> 'k \<Rightarrow> 'a list" where
  "AscendRange key b greaterOrEqual lessThan1 = tree_AscendRange key b greaterOrEqual lessThan1"

datatype error = existsError | notExistsError | ErrUnexpectedEOF

text \<open>\<^verbatim>\<open>Create\<close> of the typed indexes: the error returned and the index afterwards.\<close>

definition Create ::
  "('a \<Rightarrow> 'k::linorder) \<Rightarrow> 'a btree \<Rightarrow> 'a \<Rightarrow> bool \<Rightarrow> error option \<times> 'a btree" where
  "Create key b item replace =
     (case ReplaceOrInsert key b item replace of
        (_, ok, b') \<Rightarrow> (if ok then None else Some existsError, b'))"

section \<open>Status bytes and entities\<close>

text \<open>
  Modelled from the spec: the package proto is not among the sources. The status
  byte of a handler ranges over the closed set of section 6 of the spec; the
  constructors carry the names the handlers use (\<^verbatim>\<open>proto.OpOk\<close>, ...).
\<close>

datatype status =
    OpOk | OpExistErr | OpNotExistErr | OpNotEmpty | OpArgMismatchErr | OpInodeFullErr
  | OpNoSpaceErr | OpNotPerm | OpConflictExtentsErr | OpDirQuota | OpTxInfoNotExistErr
  | OpTxDentryInfoNotExistErr | OpTxInodeInfoNotExistErr | OpTxConflictErr
  | OpTxTimeoutErr | OpTryOtherExtent | OpErr

text \<open>
  Modelled from the spec: \<^verbatim>\<open>proto.IsDir\<close> and \<^verbatim>\<open>proto.OsModeType\<close> are not
  among the sources. A type field is a \<^verbatim>\<open>uint32\<close> holding a Go \<^verbatim>\<open>os.FileMode\<close>
  (the client builds it as \<^verbatim>\<open>uint32(mode)&0777 | uint32(os.ModeDir)\<close>): the
  permission bits are the low nine bits, \<^verbatim>\<open>os.ModeDir\<close> is bit 31, and the
  high-level type of the spec is the mode masked by \<^verbatim>\<open>os.ModeType\<close>.
\<close>

definition ModeDir :: "32 word" where
  "ModeDir = 0x80000000"

definition ModeType :: "32 word" where
  "ModeType = 0x8F280000"

definition IsDir :: "32 word \<Rightarrow> bool" where
  "IsDir mode = (mode AND ModeDir \<noteq> 0)"

definition OsModeType :: "32 word \<Rightarrow> 32 word" where
  "OsModeType mode = mode AND ModeType"

record ExtentKey =
  FileOffset :: "64 word"
  PartitionId :: "64 word"
  ExtentId :: "64 word"
  ExtentOffset :: "64 word"
  Size :: "32 word"
  CRC :: "32 word"
  IsSplit :: bool

text \<open>
  Modelled from the spec: the inode of section 3 (inode.go is not among the
  sources). Only the fields the handlers below read or write are kept. The version
  chain holds the historical snapshots, newest at the head.
\<close>

record inode_layer =
  l_verSeq :: "64 word"
  l_NLink :: "32 word"
  l_Size :: "64 word"
  l_Extents :: "ExtentKey list"

record inode =
  i_Inode :: "64 word"
  i_Type :: "32 word"
  i_Uid :: "32 word"
  i_Gid :: "32 word"
  i_Size :: "64 word"
  i_NLink :: "32 word"
  i_AccessTime :: int
  i_ModifyTime :: int
  i_DeleteMark :: bool
  i_Extents :: "ExtentKey list"
  i_verSeq :: "64 word"
  i_multiVersions :: "inode_layer list"

definition inode_key :: "inode \<Rightarrow> 64 word" where
  "inode_key i = i_Inode i"

definition ShouldDelete :: "inode \<Rightarrow> bool" where
  "ShouldDelete i = i_DeleteMark i"

definition SetDeleteMark :: "inode \<Rightarrow> inode" where
  "SetDeleteMark i = i\<lparr>i_DeleteMark := True\<rparr>"

definition getVer :: "inode \<Rightarrow> 64 word" where
  "getVer i = i_verSeq i"

definition getLayerLen :: "inode \<Rightarrow> nat" where
  "getLayerLen i = length (i_multiVersions i)"

definition isEmptyVerList :: "inode \<Rightarrow> bool" where
  "isEmptyVerList i = (getLayerLen i = 0)"

definition IsTempFile :: "inode \<Rightarrow> bool" where
  "IsTempFile i = (i_NLink i = 0)"

text \<open>
  Modelled from the spec: a directory starts at link count 2 and is empty while it
  has no more; section 4.3 lets a directory be evicted only when it is empty and
  has no snapshots.
\<close>

definition IsEmptyDirAndNoSnapshot :: "inode \<Rightarrow> bool" where
  "IsEmptyDirAndNoSnapshot i = (IsDir (i_Type i) \<and> i_NLink i \<le> 2 \<and> getLayerLen i = 0)"

text \<open>
  Modelled from the spec (section 4.5): a write on an inode whose stored seq is
  older than the partition's first moves the current contents into the version
  chain.
\<close>

definition CreateVer :: "64 word \<Rightarrow> inode \<Rightarrow> inode" where
  "CreateVer ver i =
     i\<lparr>i_multiVersions :=
          \<lparr>l_verSeq = i_verSeq i, l_NLink = i_NLink i, l_Size = i_Size i,
           l_Extents = i_Extents i\<rparr> # i_multiVersions i,
       i_verSeq := ver\<rparr>"

definition IncNLink :: "64 word \<Rightarrow> inode \<Rightarrow> inode" where
  "IncNLink verSeq i =
     (let i' = (if getVer i < verSeq then CreateVer verSeq i else i)
      in i'\<lparr>i_NLink := i_NLink i' + 1\<rparr>)"

definition DecNLink :: "inode \<Rightarrow> inode" where
  "DecNLink i = i\<lparr>i_NLink := i_NLink i - 1\<rparr>"

text \<open>\<^verbatim>\<open>SetMtime\<close> stamps the clock; \<open>now\<close> is the clock's reading.\<close>

definition SetMtime :: "int \<Rightarrow> inode \<Rightarrow> inode" where
  "SetMtime now i = i\<lparr>i_ModifyTime := now\<rparr>"

text \<open>
  Modelled from the spec: the dentry of section 3 (dentry.go is not among the
  sources). The seq field carries the delete marker in its top bit, so that
  \<^verbatim>\<open>setVerSeq\<close> in the resurrect branch of \<^verbatim>\<open>fsmCreateDentry\<close> clears it;
  a layer of the version chain is a child binding with its own seq field.
\<close>

record dentry_layer =
  dl_Inode :: "64 word"
  dl_Type :: "32 word"
  dl_VerSeq :: "64 word"

record dentry =
  d_ParentId :: "64 word"
  d_Name :: string
  d_Inode :: "64 word"
  d_Type :: "32 word"
  d_VerSeq :: "64 word"
  d_dentryList :: "dentry_layer list"

definition dentry_key :: "dentry \<Rightarrow> 64 word \<times> string" where
  "dentry_key d = (d_ParentId d, d_Name d)"

definition getSeqFiled :: "dentry \<Rightarrow> 64 word" where
  "getSeqFiled d = d_VerSeq d"

definition isDeleted :: "dentry \<Rightarrow> bool" where
  "isDeleted d = (drop_bit 63 (d_VerSeq d) \<noteq> 0)"

definition getVerSeq :: "dentry \<Rightarrow> 64 word" where
  "getVerSeq d = d_VerSeq d AND 0x7FFFFFFFFFFFFFFF"

definition setVerSeq :: "64 word \<Rightarrow> dentry \<Rightarrow> dentry" where
  "setVerSeq seq d = d\<lparr>d_VerSeq := seq\<rparr>"

definition getSnapListLen :: "dentry \<Rightarrow> nat" where
  "getSnapListLen d = length (d_dentryList d)"

record extend =
  e_inode :: "64 word"
  e_dataMap :: "(string \<times> string) list"

definition extend_key :: "extend \<Rightarrow> 64 word" where
  "extend_key e = e_inode e"

section \<open>The partition\<close>

text \<open>
  Modelled from the spec: the transaction ledger and the idempotency table of
  section 4.4 (their code is not among the sources). A rollback record is keyed by
  its entity and transaction id; the idempotency table maps a transaction id to
  \<open>Done\<close> or \<open>Unknown\<close>.
\<close>

datatype tx_state = Done | Unknown

datatype rb_type = TxDelete | TxAdd | TxUpdate

record TxDentryInfo =
  ti_ParentId :: "64 word"
  ti_Name :: string
  ti_TxID :: string

record TxRollbackDentry =
  rb_dentry :: dentry
  rb_txDentryInfo :: TxDentryInfo
  rb_rbType :: rb_type

definition rbDentry_key :: "TxRollbackDentry \<Rightarrow> 64 word \<times> string \<times> string" where
  "rbDentry_key r =
     (ti_ParentId (rb_txDentryInfo r), ti_Name (rb_txDentryInfo r), ti_TxID (rb_txDentryInfo r))"

record metaPartition =
  inodeTree :: "inode btree"
  dentryTree :: "dentry btree"
  extendTree :: "extend btree"
  freeList :: "64 word list"
  verSeq :: "64 word"
  multiVersionList :: "64 word list"
  extDelCh :: "ExtentKey list list"
  txRbDentryTree :: "TxRollbackDentry btree"
  txRbInodes :: "64 word list"
  txIdem :: "string \<Rightarrow> tx_state option"
  uidSpace :: "32 word \<Rightarrow> int"
  usedSize :: int

section \<open>Dentry handlers\<close>

text \<open>
  \<^verbatim>\<open>parIno.IncNLink(mp.verSeq); parIno.SetMtime()\<close>: \<open>parIno\<close> points into the
  inode index.
\<close>

definition linkParent :: "int \<Rightarrow> metaPartition \<Rightarrow> 64 word \<Rightarrow> metaPartition" where
  "linkParent now mp parentId =
     mp\<lparr>inodeTree :=
          tree_modify inode_key (inodeTree mp) parentId
            (\<lambda>parIno. SetMtime now (IncNLink (verSeq mp) parIno))\<rparr>"

text \<open>
  \<^verbatim>\<open>fsmCreateDentry(dentry, forceUpdate)\<close>: the status and the partition
  afterwards. \<^verbatim>\<open>ReplaceOrInsert\<close> never returns a nil item with \<open>ok = false\<close>
  (the type assertion on it would panic); that branch answers \<open>OpErr\<close>.
\<close>

definition fsmCreateDentry :: "int \<Rightarrow> metaPartition \<Rightarrow> dentry \<Rightarrow> bool \<Rightarrow> status \<times> metaPartition" where
  "fsmCreateDentry now mp dentry forceUpdate =
     (case (if \<not> forceUpdate then
              (case CopyGet inode_key (inodeTree mp) (d_ParentId dentry) of
                 None \<Rightarrow> Some OpNotExistErr
               | Some parIno \<Rightarrow>
                   if ShouldDelete parIno then Some OpNotExistErr
                   else if \<not> IsDir (i_Type parIno) then Some OpArgMismatchErr
                   else None)
            else None) of
        Some st \<Rightarrow> (st, mp)
      | None \<Rightarrow>
          (case ReplaceOrInsert dentry_key (dentryTree mp) dentry False of
             (item, ok, dt) \<Rightarrow>
               if \<not> ok then
                 (case item of
                    None \<Rightarrow> (OpErr, mp)
                  | Some d \<Rightarrow>
                      if isDeleted d then
                        (let mp1 = mp\<lparr>dentryTree :=
                                tree_modify dentry_key dt (dentry_key dentry)
                                  (\<lambda>d. (setVerSeq (getSeqFiled dentry) (d\<lparr>d_Inode := d_Inode dentry\<rparr>))
                                         \<lparr>d_Type := d_Type dentry, d_ParentId := d_ParentId dentry\<rparr>)\<rparr>
                         in (OpOk, if \<not> forceUpdate then linkParent now mp1 (d_ParentId dentry) else mp1))
                      else if OsModeType (d_Type dentry) \<noteq> OsModeType (d_Type d) then
                        (OpArgMismatchErr, mp)
                      else if d_ParentId dentry = d_ParentId d \<and> d_Name dentry = d_Name d
                              \<and> d_Inode dentry = d_Inode d then
                        (OpOk, mp)
                      else (OpExistErr, mp))
               else
                 (let mp1 = mp\<lparr>dentryTree := dt\<rparr>
                  in (OpOk, if \<not> forceUpdate then linkParent now mp1 (d_ParentId dentry) else mp1))))"

section \<open>Transactional dentry handlers\<close>

text \<open>
  Modelled from the spec: \<^verbatim>\<open>proto.TransactionInfo\<close> is not among the sources.
  \<^verbatim>\<open>TxDentryInfos\<close> is a Go map keyed by \<^verbatim>\<open>GetKey()\<close> of a dentry info, which
  names the parent and the name; the key is the pair here.
\<close>

record TxInfo =
  TxID :: string
  TxDentryInfos :: "64 word \<times> string \<Rightarrow> TxDentryInfo option"

record TxDentry =
  td_Dentry :: dentry
  td_TxInfo :: TxInfo

record DentryResponse =
  Status :: status
  Msg :: dentry

text \<open>\<^verbatim>\<open>NewDentryResponse()\<close>: the message is a zero dentry.\<close>

definition zeroDentry :: dentry where
  "zeroDentry =
     \<lparr>d_ParentId = 0, d_Name = [], d_Inode = 0, d_Type = 0, d_VerSeq = 0, d_dentryList = []\<rparr>"

definition NewDentryResponse :: DentryResponse where
  "NewDentryResponse = \<lparr>Status = OpOk, Msg = zeroDentry\<rparr>"

text \<open>
  Modelled from the spec (section 4.4): the handler observes \<open>Done\<close> in the
  idempotency table.
\<close>

definition txInRMDone :: "metaPartition \<Rightarrow> string \<Rightarrow> bool" where
  "txInRMDone mp txId = (txIdem mp txId = Some Done)"

definition NewTxRollbackDentry :: "dentry \<Rightarrow> TxDentryInfo \<Rightarrow> rb_type \<Rightarrow> TxRollbackDentry" where
  "NewTxRollbackDentry dentry txDentryInfo rbType =
     \<lparr>rb_dentry = dentry, rb_txDentryInfo = txDentryInfo, rb_rbType = rbType\<rparr>"

text \<open>
  Modelled from the spec (section 4.4): the rollback insert answers \<open>Exists\<close>
  when a record for the same entity and transaction id is in the ledger, and
  stages the record otherwise.
\<close>

definition addTxRollbackDentry ::
  "metaPartition \<Rightarrow> TxRollbackDentry \<Rightarrow> status \<times> metaPartition" where
  "addTxRollbackDentry mp rbDentry =
     (if Has rbDentry_key (txRbDentryTree mp) (rbDentry_key rbDentry) then (OpExistErr, mp)
      else (OpOk, mp\<lparr>txRbDentryTree :=
                       snd (tree_ReplaceOrInsert rbDentry_key (txRbDentryTree mp) rbDentry)\<rparr>))"

definition deleteTxRollbackDentry ::
  "metaPartition \<Rightarrow> 64 word \<Rightarrow> string \<Rightarrow> string \<Rightarrow> metaPartition" where
  "deleteTxRollbackDentry mp pid name txId =
     mp\<lparr>txRbDentryTree := snd (Delete rbDentry_key (txRbDentryTree mp) (pid, name, txId))\<rparr>"

text \<open>
  \<^verbatim>\<open>fsmTxCreateDentry\<close>. The deferred function runs after the named result
  \<open>status\<close> has been set by the \<^verbatim>\<open>return\<close>.
\<close>

definition fsmTxCreateDentry :: "int \<Rightarrow> metaPartition \<Rightarrow> TxDentry \<Rightarrow> status \<times> metaPartition" where
  "fsmTxCreateDentry now mp txDentry =
     (if txInRMDone mp (TxID (td_TxInfo txDentry)) then (OpTxInfoNotExistErr, mp)
      else
        (case TxDentryInfos (td_TxInfo txDentry)
                (d_ParentId (td_Dentry txDentry), d_Name (td_Dentry txDentry)) of
           None \<Rightarrow> (OpTxDentryInfoNotExistErr, mp)
         | Some txDenInfo \<Rightarrow>
             (case addTxRollbackDentry mp (NewTxRollbackDentry (td_Dentry txDentry) txDenInfo TxDelete) of
                (status, mp1) \<Rightarrow>
                  if status = OpExistErr then (OpOk, mp1)
                  else if status \<noteq> OpOk then (status, mp1)
                  else
                    (case fsmCreateDentry now mp1 (td_Dentry txDentry) False of
                       (status, mp2) \<Rightarrow>
                         (status,
                          if status \<noteq> OpOk then
                            deleteTxRollbackDentry mp2 (ti_ParentId txDenInfo) (ti_Name txDenInfo)
                              (ti_TxID txDenInfo)
                          else mp2)))))"

definition fsmTxDeleteDentry :: "metaPartition \<Rightarrow> TxDentry \<Rightarrow> DentryResponse \<times> metaPartition" where
  "fsmTxDeleteDentry mp txDentry =
     (let resp = NewDentryResponse\<lparr>Status := OpOk\<rparr> in
      if txInRMDone mp (TxID (td_TxInfo txDentry)) then (resp\<lparr>Status := OpTxInfoNotExistErr\<rparr>, mp)
      else
        (let tmpDen = td_Dentry txDentry in
         case TxDentryInfos (td_TxInfo txDentry) (d_ParentId tmpDen, d_Name tmpDen) of
           None \<Rightarrow> (resp\<lparr>Status := OpTxDentryInfoNotExistErr\<rparr>, mp)
         | Some txDenInfo \<Rightarrow>
             (case addTxRollbackDentry mp (NewTxRollbackDentry tmpDen txDenInfo TxAdd) of
                (status, mp1) \<Rightarrow>
                  if status = OpExistErr then (resp\<lparr>Status := OpOk\<rparr>, mp1)
                  else if status \<noteq> OpOk then (resp\<lparr>Status := status\<rparr>, mp1)
                  else
                    (case Get dentry_key (dentryTree mp1) (dentry_key tmpDen) of
                       None \<Rightarrow>
                         (resp\<lparr>Status := OpNotExistErr\<rparr>,
                          deleteTxRollbackDentry mp1 (ti_ParentId txDenInfo) (ti_Name txDenInfo)
                            (ti_TxID txDenInfo))
                     | Some item \<Rightarrow>
                         if d_Inode item \<noteq> d_Inode tmpDen then
                           (resp\<lparr>Status := OpNotExistErr\<rparr>,
                            deleteTxRollbackDentry mp1 (ti_ParentId txDenInfo) (ti_Name txDenInfo)
                              (ti_TxID txDenInfo))
                         else
                           (resp\<lparr>Status := OpOk, Msg := item\<rparr>,
                            mp1\<lparr>dentryTree :=
                                  snd (Delete dentry_key (dentryTree mp1) (dentry_key tmpDen))\<rparr>)))))"

text \<open>
  \<^verbatim>\<open>fsmDeleteDentry(denParm, checkInode)\<close>. \<^verbatim>\<open>checkAndUpdateVerList\<close> and
  \<^verbatim>\<open>Dentry.deleteVerSnapshot\<close> are not among the sources and are parameters:
  \<open>checkAndUpdateVerList mp seq\<close> gives whether it failed and the partition
  afterwards; \<open>deleteVerSnapshot reqSeq mpVerSeq verList den\<close> gives
  \<open>(denFound, doMore, clean)\<close> and the receiver afterwards.
  The first component of \<open>delete_lookup\<close> is \<open>item\<close>, the second \<open>denFound\<close>.
\<close>

type_synonym checkAndUpdateVerList_t = "metaPartition \<Rightarrow> 64 word \<Rightarrow> bool \<times> metaPartition"

type_synonym deleteVerSnapshot_t =
  "64 word \<Rightarrow> 64 word \<Rightarrow> 64 word list \<Rightarrow> dentry \<Rightarrow> (dentry option \<times> bool \<times> bool) \<times> dentry"

definition delete_snapshot ::
  "deleteVerSnapshot_t \<Rightarrow> metaPartition \<Rightarrow> dentry \<Rightarrow> dentry
   \<Rightarrow> dentry option \<times> dentry option \<times> bool \<times> bool \<times> metaPartition" where
  "delete_snapshot deleteVerSnapshot mp denParm den =
     (case deleteVerSnapshot (getSeqFiled denParm) (verSeq mp) (multiVersionList mp) den of
        ((denFound, doMore, clean), den') \<Rightarrow>
          (Some den', denFound, doMore, clean,
           mp\<lparr>dentryTree := tree_modify dentry_key (dentryTree mp) (dentry_key denParm) (\<lambda>_. den')\<rparr>))"

definition delete_lookup ::
  "deleteVerSnapshot_t \<Rightarrow> metaPartition \<Rightarrow> dentry \<Rightarrow> bool
   \<Rightarrow> dentry option \<times> dentry option \<times> bool \<times> bool \<times> metaPartition" where
  "delete_lookup deleteVerSnapshot mp denParm checkInode =
     (if checkInode then
        (case CopyGet dentry_key (dentryTree mp) (dentry_key denParm) of
           None \<Rightarrow> (None, None, True, False, mp)
         | Some den \<Rightarrow>
             if d_Inode den \<noteq> d_Inode denParm then (None, None, True, False, mp)
             else if verSeq mp = 0 then
               (case tree_Delete dentry_key (dentryTree mp) (dentry_key den) of
                  (item, t) \<Rightarrow> (item, Some den, True, False, mp\<lparr>dentryTree := t\<rparr>))
             else delete_snapshot deleteVerSnapshot mp denParm den)
      else if verSeq mp = 0 then
        (case Delete dentry_key (dentryTree mp) (dentry_key denParm) of
           (item, t) \<Rightarrow> (item, item, True, False, mp\<lparr>dentryTree := t\<rparr>))
      else
        (case Get dentry_key (dentryTree mp) (dentry_key denParm) of
           None \<Rightarrow> (None, None, True, False, mp)
         | Some item \<Rightarrow> delete_snapshot deleteVerSnapshot mp denParm item))"

text \<open>
  \<^verbatim>\<open>mp.inodeTree.CopyFind(NewInode(denParm.ParentId, 0), ...)\<close>: the callback
  gets nil when the parent is absent and leaves a parent marked deleted alone.
\<close>

definition unlinkParent :: "int \<Rightarrow> metaPartition \<Rightarrow> dentry \<Rightarrow> metaPartition" where
  "unlinkParent now mp denParm =
     mp\<lparr>inodeTree :=
          tree_modify inode_key (inodeTree mp) (d_ParentId denParm)
            (\<lambda>ino. if \<not> ShouldDelete ino then
                      SetMtime now (if getSeqFiled denParm = 0 then DecNLink ino else ino)
                    else ino)\<rparr>"

definition fsmDeleteDentry ::
  "checkAndUpdateVerList_t \<Rightarrow> deleteVerSnapshot_t \<Rightarrow> int \<Rightarrow> metaPartition \<Rightarrow> dentry \<Rightarrow> bool
   \<Rightarrow> DentryResponse \<times> metaPartition" where
  "fsmDeleteDentry checkAndUpdateVerList deleteVerSnapshot now mp0 denParm checkInode =
     (let resp = NewDentryResponse\<lparr>Status := OpOk\<rparr> in
      case (if getSeqFiled denParm \<noteq> 0 then checkAndUpdateVerList mp0 (getSeqFiled denParm)
            else (False, mp0)) of
        (True, mp) \<Rightarrow> (resp\<lparr>Status := OpNotExistErr\<rparr>, mp)
      | (False, mp) \<Rightarrow>
          (case delete_lookup deleteVerSnapshot mp denParm checkInode of
             (item, denFound, doMore, clean, mp1) \<Rightarrow>
               let mp2 =
                 (case item of
                    None \<Rightarrow> mp1
                  | Some it \<Rightarrow>
                      if clean \<or> (getSnapListLen it = 0 \<and> isDeleted it) then
                        mp1\<lparr>dentryTree := snd (Delete dentry_key (dentryTree mp1) (dentry_key it))\<rparr>
                      else mp1)
               in
               if \<not> doMore then
                 (case denFound of None \<Rightarrow> (resp, mp2) | Some den \<Rightarrow> (resp\<lparr>Msg := den\<rparr>, mp2))
               else
                 (case denFound of
                    None \<Rightarrow> (resp\<lparr>Status := OpNotExistErr\<rparr>, mp2)
                  | Some den \<Rightarrow> (resp\<lparr>Msg := den\<rparr>, unlinkParent now mp2 denParm))))"

section \<open>Reading a directory\<close>

text \<open>
  Modelled from the spec (section 4.5): \<^verbatim>\<open>Dentry.getDentryFromVerList\<close> is not
  among the sources. A read at \<open>seq\<close> walks back the version chain to the newest
  layer whose seq is at most \<open>seq\<close> and gives nothing when that layer is marked
  deleted; \<open>seq = 0\<close> reads the live layer. The layers of the chain keep the
  parent and the name of their dentry.
\<close>

definition layer_seq :: "dentry_layer \<Rightarrow> 64 word" where
  "layer_seq l = dl_VerSeq l AND 0x7FFFFFFFFFFFFFFF"

definition layer_deleted :: "dentry_layer \<Rightarrow> bool" where
  "layer_deleted l = (drop_bit 63 (dl_VerSeq l) \<noteq> 0)"

definition getDentryFromVerList :: "dentry \<Rightarrow> 64 word \<Rightarrow> dentry option" where
  "getDentryFromVerList d reqSeq =
     (if reqSeq = 0 \<or> getVerSeq d \<le> reqSeq then (if isDeleted d then None else Some d)
      else
        (case find (\<lambda>l. layer_seq l \<le> reqSeq) (d_dentryList d) of
           None \<Rightarrow> None
         | Some l \<Rightarrow>
             if layer_deleted l then None
             else Some (d\<lparr>d_Inode := dl_Inode l, d_Type := dl_Type l, d_VerSeq := dl_VerSeq l\<rparr>)))"

definition getDentryByVerSeq :: "dentry \<Rightarrow> 64 word \<Rightarrow> dentry option" where
  "getDentryByVerSeq dy reqSeq = getDentryFromVerList dy reqSeq"

record ReadDirLimitReq =
  ParentID :: "64 word"
  Marker :: string
  Limit :: "64 word"
  VerSeq :: "64 word"
  VerOpt :: "8 word"

record proto_Dentry =
  pd_Name :: string
  pd_Inode :: "64 word"
  pd_Type :: "32 word"

record ReadDirLimitResp =
  Children :: "proto_Dentry list"

definition to_proto :: "dentry \<Rightarrow> proto_Dentry" where
  "to_proto d = \<lparr>pd_Name = d_Name d, pd_Inode = d_Inode d, pd_Type = d_Type d\<rparr>"

text \<open>
  The iterator of \<^verbatim>\<open>readDirLimit\<close> on the items that \<^verbatim>\<open>AscendRange\<close> visits;
  returning \<open>false\<close> ends the scan. \<^verbatim>\<open>Dentry.isEffective\<close> and the constant
  \<^verbatim>\<open>proto.FlagsVerDelDir\<close> are not among the sources and are parameters.
\<close>

fun readDirLimit_scan ::
  "(dentry \<Rightarrow> 64 word \<Rightarrow> bool) \<Rightarrow> 8 word \<Rightarrow> ReadDirLimitReq \<Rightarrow> dentry list
   \<Rightarrow> proto_Dentry list \<Rightarrow> proto_Dentry list" where
  "readDirLimit_scan isEffective FlagsVerDelDir req [] children = children"
| "readDirLimit_scan isEffective FlagsVerDelDir req (i # rest) children =
     (if \<not> IsDir (d_Type i) \<and> VerOpt req > 0 \<and>
         (VerOpt req AND FlagsVerDelDir > 0 \<or> \<not> isEffective i (VerSeq req))
      then readDirLimit_scan isEffective FlagsVerDelDir req rest children
      else
        (case getDentryByVerSeq i (VerSeq req) of
           None \<Rightarrow> readDirLimit_scan isEffective FlagsVerDelDir req rest children
         | Some d \<Rightarrow>
             (let children' = children @ [to_proto d] in
              if Limit req > 0 \<and> Limit req \<le> of_nat (length children') then children'
              else readDirLimit_scan isEffective FlagsVerDelDir req rest children')))"

definition readDirLimit ::
  "(dentry \<Rightarrow> 64 word \<Rightarrow> bool) \<Rightarrow> 8 word \<Rightarrow> metaPartition \<Rightarrow> ReadDirLimitReq
   \<Rightarrow> ReadDirLimitResp" where
  "readDirLimit isEffective FlagsVerDelDir mp req =
     (let startDentry = (ParentID req, if length (Marker req) > 0 then Marker req else []);
          endDentry = (ParentID req + 1, [])
      in \<lparr>Children =
            readDirLimit_scan isEffective FlagsVerDelDir req
              (AscendRange dentry_key (dentryTree mp) startDentry endDentry) []\<rparr>)"

text \<open>What one visited item contributes to the listing.\<close>

definition readDir_child ::
  "(dentry \<Rightarrow> 64 word \<Rightarrow> bool) \<Rightarrow> 8 word \<Rightarrow> ReadDirLimitReq \<Rightarrow> dentry \<Rightarrow> proto_Dentry option" where
  "readDir_child isEffective FlagsVerDelDir req i =
     (if \<not> IsDir (d_Type i) \<and> VerOpt req > 0 \<and>
         (VerOpt req AND FlagsVerDelDir > 0 \<or> \<not> isEffective i (VerSeq req))
      then None
      else map_option to_proto (getDentryByVerSeq i (VerSeq req)))"

section \<open>Inode handlers\<close>

text \<open>
  Modelled from the spec: \<^verbatim>\<open>NewInode\<close> (inode.go) is not among the sources. It
  builds a fresh inode of the given id and mode, a directory with link count 2 and
  anything else with link count 1. The handlers below use it as the probe of a
  lookup, which reads the id alone; the time stamps of a probe are left at 0.
\<close>

definition NewInode :: "64 word \<Rightarrow> 32 word \<Rightarrow> inode" where
  "NewInode ino t =
     \<lparr>i_Inode = ino, i_Type = t, i_Uid = 0, i_Gid = 0, i_Size = 0,
      i_NLink = (if IsDir t then 2 else 1), i_AccessTime = 0, i_ModifyTime = 0,
      i_DeleteMark = False, i_Extents = [], i_verSeq = 0, i_multiVersions = []\<rparr>"

text \<open>
  Modelled from the spec: the free-list (free\_list.go is not among the sources)
  is the set of inode ids of section 4.6, kept as the list of its members without
  repetition.
\<close>

definition freeList_Push :: "64 word \<Rightarrow> 64 word list \<Rightarrow> 64 word list" where
  "freeList_Push ino fl = (if ino \<in> set fl then fl else fl @ [ino])"

definition freeList_Remove :: "64 word \<Rightarrow> 64 word list \<Rightarrow> 64 word list" where
  "freeList_Remove ino fl = filter (\<lambda>x. x \<noteq> ino) fl"

record InodeResponse =
  ir_Status :: status
  ir_Msg :: "inode option"

definition NewInodeResponse :: InodeResponse where
  "NewInodeResponse = \<lparr>ir_Status = OpOk, ir_Msg = None\<rparr>"

subsection \<open>Internal delete\<close>

definition internalDeleteInode :: "metaPartition \<Rightarrow> inode \<Rightarrow> metaPartition" where
  "internalDeleteInode mp ino =
     mp\<lparr>inodeTree := snd (Delete inode_key (inodeTree mp) (inode_key ino)),
        freeList := freeList_Remove (i_Inode ino) (freeList mp),
        extendTree := snd (Delete extend_key (extendTree mp)
                            (extend_key \<lparr>e_inode = i_Inode ino, e_dataMap = []\<rparr>))\<rparr>"

text \<open>
  \<^verbatim>\<open>binary.Read(buf, binary.BigEndian, &ino.Inode)\<close> of the Go library takes the
  next eight bytes of the buffer as a \<^verbatim>\<open>uint64\<close>, most significant byte first;
  it answers \<^verbatim>\<open>io.EOF\<close> when no byte is left and \<^verbatim>\<open>io.ErrUnexpectedEOF\<close> when
  fewer than eight are.
\<close>

definition BigEndian_Uint64 :: "8 word list \<Rightarrow> 64 word" where
  "BigEndian_Uint64 bs = foldl (\<lambda>acc b. push_bit 8 acc OR ucast b) 0 bs"

fun internalDelete_loop :: "metaPartition \<Rightarrow> 8 word list \<Rightarrow> error option \<times> metaPartition" where
  "internalDelete_loop mp buf =
     (if buf = [] then (None, mp)
      else if length buf < 8 then (Some ErrUnexpectedEOF, mp)
      else internalDelete_loop
             (internalDeleteInode mp ((NewInode 0 0)\<lparr>i_Inode := BigEndian_Uint64 (take 8 buf)\<rparr>))
             (drop 8 buf))"

declare internalDelete_loop.simps [simp del]

definition internalDelete :: "metaPartition \<Rightarrow> 8 word list \<Rightarrow> error option \<times> metaPartition" where
  "internalDelete mp val = (if length val = 0 then (None, mp) else internalDelete_loop mp val)"

subsection \<open>Attributes\<close>

text \<open>
  \<^verbatim>\<open>SetattrRequest\<close> and \<^verbatim>\<open>Inode.SetAttr\<close> are not among the sources; the
  handler reads the id and the mode of the request, and \<open>SetAttr\<close> is a parameter.
  The result is the error returned (\<open>None\<close> for \<^verbatim>\<open>nil\<close>) and the partition
  afterwards.
\<close>

record SetattrRequest =
  sa_Inode :: "64 word"
  sa_Mode :: "32 word"
  sa_Uid :: "32 word"
  sa_Gid :: "32 word"
  sa_AccessTime :: int
  sa_ModifyTime :: int
  sa_Valid :: "32 word"

definition fsmSetAttr ::
  "(SetattrRequest \<Rightarrow> inode \<Rightarrow> inode) \<Rightarrow> metaPartition \<Rightarrow> SetattrRequest
     \<Rightarrow> error option \<times> metaPartition" where
  "fsmSetAttr SetAttr mp req =
     (let ino = NewInode (sa_Inode req) (sa_Mode req) in
      case CopyGet inode_key (inodeTree mp) (inode_key ino) of
        None \<Rightarrow> (None, mp)
      | Some ino' \<Rightarrow>
          if ShouldDelete ino' then (None, mp)
          else (None, mp\<lparr>inodeTree :=
                           tree_modify inode_key (inodeTree mp) (inode_key ino) (SetAttr req)\<rparr>))"

subsection \<open>Evict and the batch handlers\<close>

text \<open>
  Modelled from the spec: \<^verbatim>\<open>inodeInTx\<close> belongs to the transaction code, which
  is not among the sources. An inode is involved in a pending transaction when
  the ledger holds a rollback record for it, and the status is then \<open>TxConflict\<close>.
\<close>

definition inodeInTx :: "metaPartition \<Rightarrow> 64 word \<Rightarrow> status" where
  "inodeInTx mp ino = (if ino \<in> set (txRbInodes mp) then OpTxConflictErr else OpOk)"

definition fsmEvictInode :: "metaPartition \<Rightarrow> inode \<Rightarrow> InodeResponse \<times> metaPartition" where
  "fsmEvictInode mp ino =
     (let resp = NewInodeResponse\<lparr>ir_Status := OpOk\<rparr> in
      case CopyGet inode_key (inodeTree mp) (inode_key ino) of
        None \<Rightarrow> (resp\<lparr>ir_Status := OpNotExistErr\<rparr>, mp)
      | Some i \<Rightarrow>
          if ShouldDelete i then (resp, mp)
          else if IsDir (i_Type i) then
            (resp,
             if IsEmptyDirAndNoSnapshot i
             then mp\<lparr>inodeTree := tree_modify inode_key (inodeTree mp) (inode_key ino) SetDeleteMark\<rparr>
             else mp)
          else if IsTempFile i then
            (let mp1 = mp\<lparr>inodeTree :=
                            tree_modify inode_key (inodeTree mp) (inode_key ino) SetDeleteMark\<rparr>
             in (resp,
                 if isEmptyVerList (SetDeleteMark i)
                 then mp1\<lparr>freeList := freeList_Push (i_Inode i) (freeList mp1)\<rparr>
                 else mp1))
          else (resp, mp))"

text \<open>
  The two batch loops, with the responses collected so far as an argument. The
  eviction loop returns at an inode in a transaction; the unlink loop goes on to
  the next inode.
\<close>

fun fsmBatchEvictInode_from ::
  "metaPartition \<Rightarrow> inode list \<Rightarrow> InodeResponse list \<Rightarrow> InodeResponse list \<times> metaPartition" where
  "fsmBatchEvictInode_from mp [] resp = (resp, mp)"
| "fsmBatchEvictInode_from mp (ino # ib) resp =
     (let status = inodeInTx mp (i_Inode ino) in
      if status \<noteq> OpOk then (resp @ [\<lparr>ir_Status = status, ir_Msg = None\<rparr>], mp)
      else (case fsmEvictInode mp ino of
              (r, mp1) \<Rightarrow> fsmBatchEvictInode_from mp1 ib (resp @ [r])))"

definition fsmBatchEvictInode :: "metaPartition \<Rightarrow> inode list \<Rightarrow> InodeResponse list \<times> metaPartition" where
  "fsmBatchEvictInode mp ib = fsmBatchEvictInode_from mp ib []"

text \<open>
  \<^verbatim>\<open>fsmUnlinkInodeBatch\<close> calls \<^verbatim>\<open>mp.fsmUnlinkInode(ino, 0)\<close> on every inode
  outside a transaction. The single-inode handler rests on the version helpers
  \<^verbatim>\<open>unlinkTopLayer\<close> and \<^verbatim>\<open>unlinkVerInList\<close> and on the uniq checker, none of
  which is among the sources; it is the parameter \<open>fsmUnlinkInode\<close> here, from
  the partition, the inode and the uniq id to the response and the partition
  afterwards.
\<close>

type_synonym fsmUnlinkInode_t = "metaPartition \<Rightarrow> inode \<Rightarrow> 64 word \<Rightarrow> InodeResponse \<times> metaPartition"

fun fsmUnlinkInodeBatch_from ::
  "fsmUnlinkInode_t \<Rightarrow> metaPartition \<Rightarrow> inode list \<Rightarrow> InodeResponse list
     \<Rightarrow> InodeResponse list \<times> metaPartition" where
  "fsmUnlinkInodeBatch_from fsmUnlinkInode mp [] resp = (resp, mp)"
| "fsmUnlinkInodeBatch_from fsmUnlinkInode mp (ino # ib) resp =
     (let status = inodeInTx mp (i_Inode ino) in
      if status \<noteq> OpOk
      then fsmUnlinkInodeBatch_from fsmUnlinkInode mp ib (resp @ [\<lparr>ir_Status = status, ir_Msg = None\<rparr>])
      else (case fsmUnlinkInode mp ino 0 of
              (r, mp1) \<Rightarrow> fsmUnlinkInodeBatch_from fsmUnlinkInode mp1 ib (resp @ [r])))"

definition fsmUnlinkInodeBatch ::
  "fsmUnlinkInode_t \<Rightarrow> metaPartition \<Rightarrow> inode list \<Rightarrow> InodeResponse list \<times> metaPartition" where
  "fsmUnlinkInodeBatch fsmUnlinkInode mp ib = fsmUnlinkInodeBatch_from fsmUnlinkInode mp ib []"

subsection \<open>The payload of an internal delete\<close>

text \<open>
  The encoding that \<^verbatim>\<open>binary.Read\<close> inverts: the eight bytes of a \<^verbatim>\<open>uint64\<close>,
  most significant first. The payload of an internal delete is the concatenation of
  the encodings of the inode ids to delete.
\<close>

definition BigEndian_PutUint64 :: "64 word \<Rightarrow> 8 word list" where
  "BigEndian_PutUint64 v =
     [ucast (drop_bit 56 v), ucast (drop_bit 48 v), ucast (drop_bit 40 v), ucast (drop_bit 32 v),
      ucast (drop_bit 24 v), ucast (drop_bit 16 v), ucast (drop_bit 8 v), ucast v]"

subsection \<open>Extents: checked append and truncate\<close>

text \<open>
  The methods of the inode that splice, split and truncate its extent list, the
  uid manager and the two constants of the data store are not among the sources.
  The handlers take them as the fields of \<open>inode_helpers\<close>: a method of the inode
  returns its results together with the inode as it leaves it, and a method of the
  uid manager works on the per-uid byte counts. The volume type, fixed for a
  partition, is part of the helper.

  \<^item> \<open>addUidSpace\<close>, \<open>minusUidSpace\<close>: charge and release the bytes of extent keys;
    the charge answers with a status.
  \<^item> \<open>AppendExtentWithCheck\<close>, \<open>SplitExtentWithCheck\<close>: the partition's seq, the
    snapshot list, the request's seq, the new key, the request's mtime (and, for the
    append, the keys to discard) to the keys to reclaim and a status.
  \<^item> \<open>DecSplitExts\<close>: drops the references the keys hold on split extents; it
    writes to the keys as well as to the inode.
  \<^item> \<open>IsTinyExtent\<close>, \<open>ExtentSize\<close>: \<^verbatim>\<open>storage.IsTinyExtent\<close> and
    \<^verbatim>\<open>util.ExtentSize\<close>.
  \<^item> \<open>CreateLowerVersion\<close>: answers whether it failed.
  \<^item> \<open>ExtentsTruncate\<close>: the new size and the request's mtime to the keys to
    reclaim and the keys it handed to the callback \<^verbatim>\<open>doOnLastKey\<close>.
  \<^item> \<open>RestoreExts2NextLayer\<close>: the keys left to reclaim and whether it failed.
\<close>

record inode_helpers =
  addUidSpace :: "(32 word \<Rightarrow> int) \<Rightarrow> 32 word \<Rightarrow> 64 word \<Rightarrow> ExtentKey list \<Rightarrow> status \<times> (32 word \<Rightarrow> int)"
  minusUidSpace :: "(32 word \<Rightarrow> int) \<Rightarrow> 32 word \<Rightarrow> 64 word \<Rightarrow> ExtentKey list \<Rightarrow> (32 word \<Rightarrow> int)"
  AppendExtentWithCheck ::
    "64 word \<Rightarrow> 64 word list \<Rightarrow> 64 word \<Rightarrow> ExtentKey \<Rightarrow> int \<Rightarrow> ExtentKey list \<Rightarrow> inode
       \<Rightarrow> ExtentKey list \<times> status \<times> inode"
  SplitExtentWithCheck ::
    "64 word \<Rightarrow> 64 word list \<Rightarrow> 64 word \<Rightarrow> ExtentKey \<Rightarrow> int \<Rightarrow> inode
       \<Rightarrow> ExtentKey list \<times> status \<times> inode"
  DecSplitExts :: "ExtentKey list \<Rightarrow> inode \<Rightarrow> ExtentKey list \<times> inode"
  IsTinyExtent :: "64 word \<Rightarrow> bool"
  ExtentSize :: "64 word"
  CreateLowerVersion :: "64 word \<Rightarrow> 64 word list \<Rightarrow> inode \<Rightarrow> bool \<times> inode"
  ExtentsTruncate :: "64 word \<Rightarrow> int \<Rightarrow> inode \<Rightarrow> ExtentKey list \<times> ExtentKey list \<times> inode"
  RestoreExts2NextLayer :: "ExtentKey list \<Rightarrow> 64 word \<Rightarrow> nat \<Rightarrow> inode \<Rightarrow> ExtentKey list \<times> bool \<times> inode"

text \<open>
  Modelled from the spec: \<^verbatim>\<open>updateUsedInfo\<close> is not among the sources. It adds
  the change in bytes to the used size of the partition (the aggregate of section
  4.7); the count of files is not kept here.
\<close>

definition updateUsedInfo :: "int \<Rightarrow> int \<Rightarrow> 64 word \<Rightarrow> metaPartition \<Rightarrow> metaPartition" where
  "updateUsedInfo sizeDelta files ino mp = mp\<lparr>usedSize := usedSize mp + sizeDelta\<rparr>"

text \<open>
  What a handler has written through the pointer it holds into the inode index: the
  entry under the key reads \<open>i\<close> afterwards.
\<close>

definition storeInode :: "metaPartition \<Rightarrow> 64 word \<Rightarrow> inode \<Rightarrow> metaPartition" where
  "storeInode mp k i = mp\<lparr>inodeTree := tree_modify inode_key (inodeTree mp) k (\<lambda>_. i)\<rparr>"

definition SetSplit :: "bool \<Rightarrow> ExtentKey \<Rightarrow> ExtentKey" where
  "SetSplit b ek = ek\<lparr>IsSplit := b\<rparr>"

text \<open>
  The two branches of \<^verbatim>\<open>fsmAppendExtentsWithCheck\<close> on \<open>isSplit\<close>, after the
  charge to the uid manager. Each returns the status, the request's keys \<open>eks\<close>
  (the branch without split may set the split flag of \<open>eks[0]\<close>), the inode as it
  is left and the partition. A send on \<^verbatim>\<open>mp.extDelCh\<close> appends one event to the
  channel's contents.
\<close>

definition appendWithCheck_noSplit ::
  "inode_helpers \<Rightarrow> metaPartition \<Rightarrow> inode \<Rightarrow> inode \<Rightarrow> ExtentKey list \<Rightarrow> ExtentKey list
     \<Rightarrow> status \<times> ExtentKey list \<times> inode \<times> metaPartition" where
  "appendWithCheck_noSplit h mp ino ino2 eks discardExtentKey =
     (case AppendExtentWithCheck h (verSeq mp) (multiVersionList mp) (getVer ino) (hd eks)
             (i_ModifyTime ino) discardExtentKey ino2 of
        (delExtents, status, ino2a) \<Rightarrow>
          if status = OpOk then
            (case DecSplitExts h delExtents ino2a of
               (delExtents', ino2b) \<Rightarrow>
                 (status, eks, ino2b,
                  (storeInode mp (inode_key ino) ino2b)\<lparr>extDelCh := extDelCh mp @ [delExtents']\<rparr>))
          else if status = OpConflictExtentsErr then
            (let eks' = (if \<not> IsTinyExtent h (ExtentId (hd eks)) \<and> ExtentOffset (hd eks) \<ge> ExtentSize h
                         then SetSplit True (hd eks) # tl eks else eks)
             in (status, eks', ino2a,
                 (storeInode mp (inode_key ino) ino2a)\<lparr>extDelCh := extDelCh mp @ [take 1 eks']\<rparr>))
          else (status, eks, ino2a, storeInode mp (inode_key ino) ino2a))"

definition appendWithCheck_split ::
  "inode_helpers \<Rightarrow> metaPartition \<Rightarrow> inode \<Rightarrow> inode \<Rightarrow> ExtentKey list
     \<Rightarrow> status \<times> ExtentKey list \<times> inode \<times> metaPartition" where
  "appendWithCheck_split h mp ino ino2 eks =
     (case SplitExtentWithCheck h (verSeq mp) (multiVersionList mp) (getVer ino) (hd eks)
             (i_ModifyTime ino) ino2 of
        (delExtents, status, ino2a) \<Rightarrow>
          (case DecSplitExts h delExtents ino2a of
             (delExtents', ino2b) \<Rightarrow>
               (status, eks, ino2b,
                (storeInode mp (inode_key ino) ino2b)
                  \<lparr>extDelCh := extDelCh mp @ [delExtents'],
                   uidSpace := minusUidSpace h (uidSpace mp) (i_Uid ino2b) (i_Inode ino2b) delExtents'\<rparr>)))"

definition fsmAppendExtentsWithCheck ::
  "inode_helpers \<Rightarrow> metaPartition \<Rightarrow> inode \<Rightarrow> bool \<Rightarrow> status \<times> metaPartition" where
  "fsmAppendExtentsWithCheck h mp ino isSplit =
     (case CopyGet inode_key (inodeTree mp) (inode_key ino) of
        None \<Rightarrow> (OpNotExistErr, mp)
      | Some ino2 \<Rightarrow>
          if ShouldDelete ino2 then (OpNotExistErr, mp)
          else
            (let oldSize = i_Size ino2;
                 eks = i_Extents ino
             in if length eks < 1 then (OpOk, mp)
                else
                  (let discardExtentKey = (if length eks > 1 then drop 1 eks else []) in
                   case addUidSpace h (uidSpace mp) (i_Uid ino2) (i_Inode ino2) (take 1 eks) of
                     (st, u1) \<Rightarrow>
                       if st \<noteq> OpOk then (st, mp\<lparr>uidSpace := u1\<rparr>)
                       else
                         (case (if \<not> isSplit
                                then appendWithCheck_noSplit h (mp\<lparr>uidSpace := u1\<rparr>) ino ino2 eks
                                       discardExtentKey
                                else appendWithCheck_split h (mp\<lparr>uidSpace := u1\<rparr>) ino ino2 eks) of
                            (status, eks', ino2', mp2) \<Rightarrow>
                              (let mp3 =
                                     (if status = OpConflictExtentsErr
                                      then mp2\<lparr>extDelCh := extDelCh mp2 @ [take 1 eks'],
                                               uidSpace := minusUidSpace h (uidSpace mp2) (i_Uid ino2')
                                                             (i_Inode ino2') (take 1 eks')\<rparr>
                                      else mp2)
                               in (status,
                                   updateUsedInfo (sint (i_Size ino2' - oldSize)) 0 (i_Inode ino2') mp3))))))"

text \<open>
  \<^verbatim>\<open>fsmExtentsTruncate\<close>: the response and the partition afterwards, or the
  message of the panic.
\<close>

definition fsmExtentsTruncate ::
  "inode_helpers \<Rightarrow> metaPartition \<Rightarrow> inode \<Rightarrow> string + (InodeResponse \<times> metaPartition)" where
  "fsmExtentsTruncate h mp ino =
     (let resp = NewInodeResponse\<lparr>ir_Status := OpOk\<rparr> in
      case Get inode_key (inodeTree mp) (inode_key ino) of
        None \<Rightarrow> Inr (resp\<lparr>ir_Status := OpNotExistErr\<rparr>, mp)
      | Some i \<Rightarrow>
          if ShouldDelete i then Inr (resp\<lparr>ir_Status := OpNotExistErr\<rparr>, mp)
          else if IsDir (i_Type i) then Inr (resp\<lparr>ir_Status := OpArgMismatchErr\<rparr>, mp)
          else
            (let i1 = (if getVer i \<noteq> verSeq mp then CreateVer (verSeq mp) i else i) in
             case CreateLowerVersion h (getVer i1) (multiVersionList mp) i1 of
               (err, i2) \<Rightarrow>
                 if err then Inr (resp, storeInode mp (inode_key ino) i2)
                 else
                   (let oldSize = i_Size i2 in
                    case ExtentsTruncate h (i_Size ino) (i_ModifyTime ino) i2 of
                      (delExtents, lastKeys, i3) \<Rightarrow>
                        (let mp1 = (storeInode mp (inode_key ino) i3)
                                     \<lparr>uidSpace := fold (\<lambda>lastKey u. minusUidSpace h u (i_Uid i3) (i_Inode i3) [lastKey])
                                                      lastKeys (uidSpace mp)\<rparr>
                         in if length delExtents = 0 then Inr (resp, mp1)
                            else
                              (case RestoreExts2NextLayer h delExtents (verSeq mp) 0 i3 of
                                 (delExtents1, err1, i4) \<Rightarrow>
                                   if err1 then Inl ''RestoreExts2NextLayer should not be error''
                                   else
                                     (case DecSplitExts h delExtents1 i4 of
                                        (delExtents2, i5) \<Rightarrow>
                                          (let mp2 = updateUsedInfo (sint (i_Size i4 - oldSize)) 0 (i_Inode i4) mp1
                                           in Inr (resp,
                                                   (storeInode mp2 (inode_key ino) i5)
                                                     \<lparr>extDelCh := extDelCh mp2 @ [delExtents2],
                                                      uidSpace := minusUidSpace h (uidSpace mp2) (i_Uid i5)
                                                                    (i_Inode i5) delExtents2\<rparr>))))))))"

section \<open>Scenarios\<close>

text \<open>
  The partition of scenario S1 of the spec: directory 100 (mode
  \<^verbatim>\<open>os.ModeDir | 0755\<close>), regular file 101 (mode \<^verbatim>\<open>0644\<close>) and the dentry
  \<open>(100, "a")\<close> bound to 101; directory 100 has link count 3.
\<close>

definition mkInode :: "64 word \<Rightarrow> 32 word \<Rightarrow> 32 word \<Rightarrow> inode" where
  "mkInode ino t n =
     \<lparr>i_Inode = ino, i_Type = t, i_Uid = 0, i_Gid = 0, i_Size = 0, i_NLink = n,
      i_AccessTime = 0, i_ModifyTime = 0, i_DeleteMark = False, i_Extents = [],
      i_verSeq = 0, i_multiVersions = []\<rparr>"

definition mkDentry :: "64 word \<Rightarrow> string \<Rightarrow> 64 word \<Rightarrow> 32 word \<Rightarrow> dentry" where
  "mkDentry p n i t =
     \<lparr>d_ParentId = p, d_Name = n, d_Inode = i, d_Type = t, d_VerSeq = 0, d_dentryList = []\<rparr>"

definition emptyPartition :: metaPartition where
  "emptyPartition =
     \<lparr>inodeTree = [], dentryTree = [], extendTree = [], freeList = [], verSeq = 0,
      multiVersionList = [], extDelCh = [], txRbDentryTree = [], txRbInodes = [], txIdem = (\<lambda>_. None),
      uidSpace = (\<lambda>_. 0), usedSize = 0\<rparr>"

definition S1 :: metaPartition where
  "S1 = emptyPartition
     \<lparr>inodeTree := [mkInode 100 0x800001ED 3, mkInode 101 0x1A4 1],
      dentryTree := [mkDentry 100 ''a'' 101 0x1A4]\<rparr>"

text \<open>
  The partition of scenario S3: directories 10 and 20, file 42, the dentry
  \<open>(10, "x")\<close> bound to 42, and the transaction \<open>T\<close> that names the dentries
  \<open>(10, "x")\<close>, \<open>(20, "y")\<close> and \<open>(99, "z")\<close>.
\<close>

definition S3 :: metaPartition where
  "S3 = emptyPartition
     \<lparr>inodeTree := [mkInode 10 0x800001ED 3, mkInode 20 0x800001ED 2, mkInode 42 0x1A4 1],
      dentryTree := [mkDentry 10 ''x'' 42 0x1A4]\<rparr>"

definition txInfoOf :: "64 word \<Rightarrow> string \<Rightarrow> TxDentryInfo" where
  "txInfoOf p n = \<lparr>ti_ParentId = p, ti_Name = n, ti_TxID = ''T''\<rparr>"

definition txT :: TxInfo where
  "txT = \<lparr>TxID = ''T'',
           TxDentryInfos = [(10, ''x'') \<mapsto> txInfoOf 10 ''x'', (20, ''y'') \<mapsto> txInfoOf 20 ''y'',
                            (99, ''z'') \<mapsto> txInfoOf 99 ''z'']\<rparr>"

definition txDentryOf :: "dentry \<Rightarrow> TxDentry" where
  "txDentryOf d = \<lparr>td_Dentry = d, td_TxInfo = txT\<rparr>"

text \<open>
  S1 with the parent directory 100 marked deleted, and stand-ins for the two
  version helpers on the paths that never call them.
\<close>

definition S1_parentDeleted :: metaPartition where
  "S1_parentDeleted = S1
     \<lparr>inodeTree := [(mkInode 100 0x800001ED 3)\<lparr>i_DeleteMark := True\<rparr>, mkInode 101 0x1A4 1]\<rparr>"

definition checkAndUpdateVerList_ok :: checkAndUpdateVerList_t where
  "checkAndUpdateVerList_ok mp seq = (False, mp)"

definition deleteVerSnapshot_top :: deleteVerSnapshot_t where
  "deleteVerSnapshot_top reqSeq mpVerSeq verList den = ((Some den, True, False), den)"

text \<open>
  A partition with three entries under directory 100 and entries of two other
  directories around them; a listing request, and a stand-in for
  \<^verbatim>\<open>isEffective\<close>, which a request without version options never calls.
\<close>

definition S_listing :: metaPartition where
  "S_listing = emptyPartition
     \<lparr>dentryTree := [mkDentry 50 ''q'' 7 0x1A4, mkDentry 100 ''a'' 101 0x1A4,
                     mkDentry 100 ''b'' 102 0x1A4, mkDentry 100 ''c'' 103 0x1A4,
                     mkDentry 101 ''x'' 9 0x1A4]\<rparr>"

definition listReq :: "string \<Rightarrow> 64 word \<Rightarrow> ReadDirLimitReq" where
  "listReq marker limit =
     \<lparr>ParentID = 100, Marker = marker, Limit = limit, VerSeq = 0, VerOpt = 0\<rparr>"

definition isEffective_always :: "dentry \<Rightarrow> 64 word \<Rightarrow> bool" where
  "isEffective_always d seq = True"

definition child :: "string \<Rightarrow> 64 word \<Rightarrow> proto_Dentry" where
  "child n i = \<lparr>pd_Name = n, pd_Inode = i, pd_Type = 0x1A4\<rparr>"

text \<open>
  S1 with an extended-attribute entry for each of its two inodes and both inodes on
  the free-list.
\<close>

definition S_xattr :: metaPartition where
  "S_xattr = S1
     \<lparr>extendTree := [\<lparr>e_inode = 100, e_dataMap = [(''k'', ''v'')]\<rparr>,
                     \<lparr>e_inode = 101, e_dataMap = [(''user.a'', ''1'')]\<rparr>],
      freeList := [101, 100]\<rparr>"

text \<open>
  S1 with the file 101 unlinked and marked deleted; a request that sets mode, owner
  and group, and a stand-in for \<^verbatim>\<open>SetAttr\<close> that writes the three.
\<close>

definition S1_fileDeleted :: metaPartition where
  "S1_fileDeleted = S1
     \<lparr>inodeTree := [mkInode 100 0x800001ED 3, (mkInode 101 0x1A4 0)\<lparr>i_DeleteMark := True\<rparr>]\<rparr>"

definition SetAttr_owner :: "SetattrRequest \<Rightarrow> inode \<Rightarrow> inode" where
  "SetAttr_owner req i = i\<lparr>i_Type := sa_Mode req, i_Uid := sa_Uid req, i_Gid := sa_Gid req\<rparr>"

definition attrReq :: "64 word \<Rightarrow> SetattrRequest" where
  "attrReq ino =
     \<lparr>sa_Inode = ino, sa_Mode = 0x180, sa_Uid = 7, sa_Gid = 7, sa_AccessTime = 0,
      sa_ModifyTime = 0, sa_Valid = 7\<rparr>"

text \<open>
  A partition with directory 100 and the unlinked files 101, 102 and 103, of which
  102 is in a pending transaction; and a stand-in for the single-inode unlink
  handler that marks the inode deleted.
\<close>

definition S_batch :: metaPartition where
  "S_batch = emptyPartition
     \<lparr>inodeTree := [mkInode 100 0x800001ED 2, mkInode 101 0x1A4 0, mkInode 102 0x1A4 0,
                    mkInode 103 0x1A4 0],
      txRbInodes := [102]\<rparr>"

definition fsmUnlinkInode_mark :: fsmUnlinkInode_t where
  "fsmUnlinkInode_mark mp ino uniqID =
     (case CopyGet inode_key (inodeTree mp) (inode_key ino) of
        None \<Rightarrow> (\<lparr>ir_Status = OpNotExistErr, ir_Msg = None\<rparr>, mp)
      | Some i \<Rightarrow>
          (\<lparr>ir_Status = OpOk, ir_Msg = Some (SetDeleteMark i)\<rparr>,
           mp\<lparr>inodeTree := tree_modify inode_key (inodeTree mp) (inode_key ino) SetDeleteMark\<rparr>))"

text \<open>
  Modelled from the spec: \<^verbatim>\<open>Inode.AppendExtentWithCheck\<close> is not among the sources.
  Section 4.3 has it report \<open>ConflictExtents\<close>, with the inode untouched, when an
  extent of the inode overlaps the interval of the new key and belongs to another
  extent; otherwise the new key is spliced in at its offset, adjacent entries of one
  extent are merged, and the keys it covers in full are returned for reclaim. An
  extent is named by its data partition and its extent id.
\<close>

definition ek_end :: "ExtentKey \<Rightarrow> nat" where
  "ek_end k = unat (FileOffset k) + unat (Size k)"

definition ek_overlap :: "ExtentKey \<Rightarrow> ExtentKey \<Rightarrow> bool" where
  "ek_overlap a b = (unat (FileOffset a) < ek_end b \<and> unat (FileOffset b) < ek_end a)"

definition ek_same :: "ExtentKey \<Rightarrow> ExtentKey \<Rightarrow> bool" where
  "ek_same a b = (PartitionId a = PartitionId b \<and> ExtentId a = ExtentId b)"

definition ek_covered :: "ExtentKey \<Rightarrow> ExtentKey \<Rightarrow> bool" where
  "ek_covered old ek = (unat (FileOffset ek) \<le> unat (FileOffset old) \<and> ek_end old \<le> ek_end ek)"

fun ek_insert :: "ExtentKey \<Rightarrow> ExtentKey list \<Rightarrow> ExtentKey list" where
  "ek_insert ek [] = [ek]"
| "ek_insert ek (a # r) = (if FileOffset ek \<le> FileOffset a then ek # a # r else a # ek_insert ek r)"

fun ek_merge :: "ExtentKey list \<Rightarrow> ExtentKey list" where
  "ek_merge (a # b # r) =
     (if ek_same a b \<and> ek_end a = unat (FileOffset b)
         \<and> unat (ExtentOffset a) + unat (Size a) = unat (ExtentOffset b)
      then ek_merge (a\<lparr>Size := Size a + Size b\<rparr> # r)
      else a # ek_merge (b # r))"
| "ek_merge xs = xs"

definition AppendExtentWithCheck_spec ::
  "64 word \<Rightarrow> 64 word list \<Rightarrow> 64 word \<Rightarrow> ExtentKey \<Rightarrow> int \<Rightarrow> ExtentKey list \<Rightarrow> inode
     \<Rightarrow> ExtentKey list \<times> status \<times> inode" where
  "AppendExtentWithCheck_spec mpSeq verList reqSeq ek ct discard i =
     (case find (\<lambda>old. ek_overlap old ek \<and> \<not> ek_same old ek) (i_Extents i) of
        Some old \<Rightarrow> ([], OpConflictExtentsErr, i)
      | None \<Rightarrow>
          (filter (\<lambda>old. ek_covered old ek) (i_Extents i),
           OpOk,
           i\<lparr>i_Extents := ek_merge (ek_insert ek (filter (\<lambda>old. \<not> ek_covered old ek) (i_Extents i))),
             i_Size := (if unat (i_Size i) < ek_end ek then of_nat (ek_end ek) else i_Size i),
             i_ModifyTime := ct\<rparr>))"

text \<open>
  Helpers for the scenarios: a uid manager that counts bytes and never refuses a
  charge, the conflict detection above, the tiny extents with ids 1 to 64 and an
  extent size of 128 MiB; the split, the reference counts and the version helpers
  do nothing, and the truncation sets size and mtime of an inode and drops no key.
\<close>

definition ek_bytes :: "ExtentKey list \<Rightarrow> int" where
  "ek_bytes eks = sum_list (map (\<lambda>k. int (unat (Size k))) eks)"

definition S6_helpers :: inode_helpers where
  "S6_helpers =
     \<lparr>addUidSpace = (\<lambda>u uid ino eks. (OpOk, u(uid := u uid + ek_bytes eks))),
      minusUidSpace = (\<lambda>u uid ino eks. u(uid := u uid - ek_bytes eks)),
      AppendExtentWithCheck = AppendExtentWithCheck_spec,
      SplitExtentWithCheck = (\<lambda>mpSeq verList reqSeq ek ct i. ([], OpOk, i)),
      DecSplitExts = (\<lambda>eks i. (eks, i)),
      IsTinyExtent = (\<lambda>extentId. 1 \<le> extentId \<and> extentId \<le> 64),
      ExtentSize = 0x8000000,
      CreateLowerVersion = (\<lambda>seq verList i. (False, i)),
      ExtentsTruncate = (\<lambda>sz mt i. ([], [], i\<lparr>i_Size := sz, i_ModifyTime := mt\<rparr>)),
      RestoreExts2NextLayer = (\<lambda>eks seq idx i. (eks, False, i))\<rparr>"

text \<open>
  Scenario S6 of the spec: inode 101 holds the extent \<open>(0, 4096, ekA)\<close> and the
  command proposes \<open>(0, 4096, ekB)\<close>; and a command that truncates an inode to
  size 0.
\<close>

definition ekA :: ExtentKey where
  "ekA = \<lparr>FileOffset = 0, PartitionId = 1, ExtentId = 1001, ExtentOffset = 0, Size = 4096,
           CRC = 0, IsSplit = False\<rparr>"

definition ekB :: ExtentKey where
  "ekB = \<lparr>FileOffset = 0, PartitionId = 1, ExtentId = 1002, ExtentOffset = 0, Size = 4096,
           CRC = 0, IsSplit = False\<rparr>"

definition S6 :: metaPartition where
  "S6 = S1\<lparr>inodeTree := [mkInode 100 0x800001ED 3,
                           (mkInode 101 0x1A4 1)\<lparr>i_Size := 4096, i_Extents := [ekA]\<rparr>]\<rparr>"

definition S6_cmd :: inode where
  "S6_cmd = (NewInode 101 0)\<lparr>i_Extents := [ekB]\<rparr>"

definition truncateCmd :: "64 word \<Rightarrow> inode" where
  "truncateCmd ino = (NewInode ino 0)\<lparr>i_Size := 0, i_ModifyTime := 5\<rparr>"

section \<open>Properties of the ordered index\<close>

lemma tree_Get_put_same: "tree_Get key (tree_put key x t) (key x) = Some x"
  by (induction t) (auto simp: tree_Get_def)

lemma tree_Get_put_other:
  "q \<noteq> key x \<Longrightarrow> tree_Get key (tree_put key x t) q = tree_Get key t q"
  by (induction t) (auto simp: tree_Get_def)

lemma tree_Get_None_iff: "tree_Get key t q = None \<longleftrightarrow> q \<notin> key ` set t"
  unfolding tree_Get_def find_None_iff by (metis image_iff)

lemma tree_Get_Some_key: "tree_Get key t q = Some x \<Longrightarrow> key x = q \<and> x \<in> set t"
  by (auto simp: tree_Get_def find_Some_iff)

lemma set_tree_put: "set (tree_put key x t) \<subseteq> insert x (set t)"
  by (induction t) auto

lemma tree_put_ok: "tree_ok key t \<Longrightarrow> tree_ok key (tree_put key x t)"
proof (induction t)
  case Nil
  then show ?case by (simp add: tree_ok_def)
next
  case (Cons y ys)
  have sub: "key ` set (tree_put key x ys) \<subseteq> insert (key x) (key ` set ys)"
    using set_tree_put [of key x ys] by auto
  from Cons show ?case
    using sub by (auto simp: tree_ok_def)
qed

lemma tree_Get_modify_same:
  "(\<And>x. key (f x) = key x) \<Longrightarrow>
   tree_Get key (tree_modify key t k f) k = map_option f (tree_Get key t k)"
  by (induction t) (auto simp: tree_Get_def tree_modify_def)

lemma tree_Get_modify_other:
  "(\<And>x. key (f x) = key x) \<Longrightarrow> q \<noteq> k \<Longrightarrow>
   tree_Get key (tree_modify key t k f) q = tree_Get key t q"
  by (induction t) (auto simp: tree_Get_def tree_modify_def)

section \<open>Creating a dentry\<close>

lemma inode_key_link [simp]: "inode_key (SetMtime now (IncNLink v i)) = inode_key i"
  by (simp add: inode_key_def SetMtime_def IncNLink_def CreateVer_def Let_def)

lemma NLink_link: "i_NLink (SetMtime now (IncNLink v i)) = i_NLink i + 1"
  by (simp add: SetMtime_def IncNLink_def CreateVer_def Let_def)

lemma Mtime_link: "i_ModifyTime (SetMtime now (IncNLink v i)) = now"
  by (simp add: SetMtime_def IncNLink_def CreateVer_def Let_def)

lemmas S1_defs =
  S1_def emptyPartition_def mkInode_def mkDentry_def CopyGet_def Get_def tree_Get_def
  ShouldDelete_def IsDir_def ModeDir_def ReplaceOrInsert_def dentry_key_def inode_key_def
  isDeleted_def OsModeType_def ModeType_def

text \<open>
  C1, as the claim states it, fails: its last case answers \<open>Exists\<close> for every
  live dentry that is neither identical to the request nor of another high-level
  type. On S1 the dentry \<open>(100, "a")\<close> holds child 101 with mode \<open>0644\<close>; a
  request for the same parent, name and child with mode \<open>0600\<close> has another type
  field and the same high-level type, and the handler answers \<open>Ok\<close>.
\<close>

theorem fsmCreateDentry_counterexample:
  "Get dentry_key (dentryTree S1) (dentry_key (mkDentry 100 ''a'' 101 0x180))
     = Some (mkDentry 100 ''a'' 101 0x1A4) \<and>
   \<not> isDeleted (mkDentry 100 ''a'' 101 0x1A4) \<and>
   d_Type (mkDentry 100 ''a'' 101 0x180) \<noteq> d_Type (mkDentry 100 ''a'' 101 0x1A4) \<and>
   OsModeType (d_Type (mkDentry 100 ''a'' 101 0x180))
     = OsModeType (d_Type (mkDentry 100 ''a'' 101 0x1A4)) \<and>
   fsmCreateDentry 7 S1 (mkDentry 100 ''a'' 101 0x180) False = (OpOk, S1) \<and>
   fst (fsmCreateDentry 7 S1 (mkDentry 100 ''a'' 101 0x180) False) \<noteq> OpExistErr"
  by (simp add: fsmCreateDentry_def S1_defs)

text \<open>
  C1, amended. \<^verbatim>\<open>fsmCreateDentry\<close> without \<open>forceUpdate\<close>: a parent that is absent
  from the inode index or marked deleted gives \<open>NotExist\<close>, a parent that is not a
  directory gives \<open>ArgMismatch\<close>, both with the partition unchanged. Under a live
  directory: when no dentry is at \<open>(parent, name)\<close> the answer is \<open>Ok\<close>, the dentry
  is in the index, the other dentries and inodes read as before, and the parent has
  its link count incremented and its mtime set to the clock; when a live dentry is
  there the partition is unchanged and the answer is \<open>ArgMismatch\<close> if the
  high-level types differ, \<open>Ok\<close> if they agree and the child inode is the same
  (whatever the low bits of the type), and \<open>Exists\<close> otherwise.
\<close>

theorem fsmCreateDentry_cases:
  "(CopyGet inode_key (inodeTree mp) (d_ParentId dentry) = None \<longrightarrow>
      fsmCreateDentry now mp dentry False = (OpNotExistErr, mp)) \<and>
   (\<forall>parIno. CopyGet inode_key (inodeTree mp) (d_ParentId dentry) = Some parIno \<longrightarrow>
      (ShouldDelete parIno \<longrightarrow> fsmCreateDentry now mp dentry False = (OpNotExistErr, mp)) \<and>
      (\<not> ShouldDelete parIno \<and> \<not> IsDir (i_Type parIno) \<longrightarrow>
         fsmCreateDentry now mp dentry False = (OpArgMismatchErr, mp)) \<and>
      (\<not> ShouldDelete parIno \<and> IsDir (i_Type parIno) \<longrightarrow>
         (Get dentry_key (dentryTree mp) (dentry_key dentry) = None \<longrightarrow>
            (\<exists>mp'. fsmCreateDentry now mp dentry False = (OpOk, mp') \<and>
               Get dentry_key (dentryTree mp') (dentry_key dentry) = Some dentry \<and>
               (\<forall>q. q \<noteq> dentry_key dentry \<longrightarrow>
                    Get dentry_key (dentryTree mp') q = Get dentry_key (dentryTree mp) q) \<and>
               (\<exists>parIno'. Get inode_key (inodeTree mp') (d_ParentId dentry) = Some parIno' \<and>
                    parIno' = SetMtime now (IncNLink (verSeq mp) parIno) \<and>
                    i_NLink parIno' = i_NLink parIno + 1 \<and> i_ModifyTime parIno' = now) \<and>
               (\<forall>q. q \<noteq> d_ParentId dentry \<longrightarrow>
                    Get inode_key (inodeTree mp') q = Get inode_key (inodeTree mp) q))) \<and>
         (\<forall>d. Get dentry_key (dentryTree mp) (dentry_key dentry) = Some d \<and> \<not> isDeleted d \<longrightarrow>
            fsmCreateDentry now mp dentry False =
              (if OsModeType (d_Type dentry) \<noteq> OsModeType (d_Type d) then OpArgMismatchErr
               else if d_Inode dentry = d_Inode d then OpOk
               else OpExistErr, mp))))"
  apply (intro conjI allI impI)
       apply (simp add: fsmCreateDentry_def)
      apply (simp add: fsmCreateDentry_def)
     apply (simp add: fsmCreateDentry_def)
    apply (simp add: fsmCreateDentry_def ReplaceOrInsert_def tree_ReplaceOrInsert_def Get_def
      CopyGet_def linkParent_def tree_Get_put_same tree_Get_put_other tree_Get_modify_same
      tree_Get_modify_other NLink_link Mtime_link)
  apply (auto simp add: fsmCreateDentry_def ReplaceOrInsert_def tree_ReplaceOrInsert_def Get_def
      CopyGet_def dentry_key_def dest!: tree_Get_Some_key)
  done

theorem fsmCreateDentry_cases_witness:
  "CopyGet inode_key (inodeTree S1) (d_ParentId (mkDentry 100 ''a'' 102 0x1A4))
     = Some (mkInode 100 0x800001ED 3) \<and>
   \<not> ShouldDelete (mkInode 100 0x800001ED 3) \<and> IsDir (i_Type (mkInode 100 0x800001ED 3)) \<and>
   Get dentry_key (dentryTree S1) (dentry_key (mkDentry 100 ''a'' 102 0x1A4))
     = Some (mkDentry 100 ''a'' 101 0x1A4) \<and>
   \<not> isDeleted (mkDentry 100 ''a'' 101 0x1A4) \<and>
   fsmCreateDentry 7 S1 (mkDentry 100 ''a'' 102 0x1A4) False = (OpExistErr, S1) \<and>
   CopyGet inode_key (inodeTree S1) (d_ParentId (mkDentry 5 ''b'' 101 0x1A4)) = None \<and>
   fsmCreateDentry 7 S1 (mkDentry 5 ''b'' 101 0x1A4) False = (OpNotExistErr, S1)"
  using fsmCreateDentry_cases [of S1 "mkDentry 100 ''a'' 102 0x1A4" 7]
    fsmCreateDentry_cases [of S1 "mkDentry 5 ''b'' 101 0x1A4" 7]
  by (simp add: S1_defs)

section \<open>Transactional prepare of a dentry\<close>

lemma tree_Get_None_all: "tree_Get key t q = None \<longleftrightarrow> (\<forall>y\<in>set t. key y \<noteq> q)"
  by (auto simp: tree_Get_def find_None_iff)

lemma filter_put_absent:
  "\<forall>y\<in>set t. key y \<noteq> key x \<Longrightarrow> filter (\<lambda>y. key y \<noteq> key x) (tree_put key x t) = t"
proof (induction t)
  case Nil
  then show ?case by simp
next
  case (Cons y ys)
  have "filter (\<lambda>z. key z \<noteq> key x) ys = ys"
    using Cons.prems by (simp add: filter_id_conv)
  with Cons show ?case by auto
qed

lemma fsmCreateDentry_fail_unchanged:
  "fst (fsmCreateDentry now mp d force) \<noteq> OpOk \<Longrightarrow> snd (fsmCreateDentry now mp d force) = mp"
  by (auto simp: fsmCreateDentry_def Let_def split: option.splits prod.splits if_splits)

lemma add_then_delete:
  "\<not> Has rbDentry_key (txRbDentryTree mp) (rbDentry_key rb) \<Longrightarrow>
   rbDentry_key rb = (p, n, t) \<Longrightarrow>
   deleteTxRollbackDentry (snd (addTxRollbackDentry mp rb)) p n t = mp"
  using filter_put_absent [where key = rbDentry_key and x = rb and t = "txRbDentryTree mp"]
  by (simp add: addTxRollbackDentry_def deleteTxRollbackDentry_def Has_def tree_Has_def
      tree_Get_None_all Delete_def tree_Delete_def tree_ReplaceOrInsert_def)

lemma add_Has:
  "Has rbDentry_key (txRbDentryTree (snd (addTxRollbackDentry mp rb))) (rbDentry_key rb)"
  by (simp add: addTxRollbackDentry_def Has_def tree_Has_def tree_ReplaceOrInsert_def
      tree_Get_put_same)

lemma fsmCreateDentry_txRb:
  "txRbDentryTree (snd (fsmCreateDentry now mp d force)) = txRbDentryTree mp"
  by (auto simp: fsmCreateDentry_def Let_def linkParent_def split: option.splits prod.splits if_splits)

lemma fsmTxCreateDentry_fresh:
  assumes "\<not> txInRMDone mp (TxID (td_TxInfo txDentry))"
    and "TxDentryInfos (td_TxInfo txDentry)
        (d_ParentId (td_Dentry txDentry), d_Name (td_Dentry txDentry)) = Some i"
    and "\<not> Has rbDentry_key (txRbDentryTree mp) (ti_ParentId i, ti_Name i, ti_TxID i)"
  shows "fsmTxCreateDentry now mp txDentry =
     (let mp1 = snd (addTxRollbackDentry mp (NewTxRollbackDentry (td_Dentry txDentry) i TxDelete));
          r = fsmCreateDentry now mp1 (td_Dentry txDentry) False
      in (fst r, if fst r \<noteq> OpOk then mp else snd r))"
proof -
  let ?rb = "NewTxRollbackDentry (td_Dentry txDentry) i TxDelete"
  let ?mp1 = "snd (addTxRollbackDentry mp ?rb)"
  let ?r = "fsmCreateDentry now ?mp1 (td_Dentry txDentry) False"
  have k: "rbDentry_key ?rb = (ti_ParentId i, ti_Name i, ti_TxID i)"
    by (simp add: NewTxRollbackDentry_def rbDentry_key_def)
  have nh: "\<not> Has rbDentry_key (txRbDentryTree mp) (rbDentry_key ?rb)"
    using assms(3) k by simp
  have a: "fst (addTxRollbackDentry mp ?rb) = OpOk"
    using nh by (simp add: addTxRollbackDentry_def)
  have r: "fsmTxCreateDentry now mp txDentry =
      (fst ?r, if fst ?r \<noteq> OpOk
               then deleteTxRollbackDentry (snd ?r) (ti_ParentId i) (ti_Name i) (ti_TxID i)
               else snd ?r)"
    using assms(1,2) a by (simp add: fsmTxCreateDentry_def split_beta)
  have "fst ?r \<noteq> OpOk \<Longrightarrow>
      deleteTxRollbackDentry (snd ?r) (ti_ParentId i) (ti_Name i) (ti_TxID i) = mp"
    using fsmCreateDentry_fail_unchanged [of now ?mp1 "td_Dentry txDentry" False]
      add_then_delete [OF nh k] by simp
  with r show ?thesis by (simp add: Let_def)
qed

lemma fsmTxDeleteDentry_fresh:
  assumes "\<not> txInRMDone mp (TxID (td_TxInfo txDentry))"
    and "TxDentryInfos (td_TxInfo txDentry)
        (d_ParentId (td_Dentry txDentry), d_Name (td_Dentry txDentry)) = Some i"
    and "\<not> Has rbDentry_key (txRbDentryTree mp) (ti_ParentId i, ti_Name i, ti_TxID i)"
  shows "fsmTxDeleteDentry mp txDentry =
     (case Get dentry_key (dentryTree mp) (dentry_key (td_Dentry txDentry)) of
        None \<Rightarrow> (NewDentryResponse\<lparr>Status := OpNotExistErr\<rparr>, mp)
      | Some item \<Rightarrow>
          if d_Inode item \<noteq> d_Inode (td_Dentry txDentry)
          then (NewDentryResponse\<lparr>Status := OpNotExistErr\<rparr>, mp)
          else (NewDentryResponse\<lparr>Status := OpOk, Msg := item\<rparr>,
                (snd (addTxRollbackDentry mp (NewTxRollbackDentry (td_Dentry txDentry) i TxAdd)))
                  \<lparr>dentryTree := snd (Delete dentry_key (dentryTree mp)
                                       (dentry_key (td_Dentry txDentry)))\<rparr>))"
proof -
  let ?rb = "NewTxRollbackDentry (td_Dentry txDentry) i TxAdd"
  let ?mp1 = "snd (addTxRollbackDentry mp ?rb)"
  have k: "rbDentry_key ?rb = (ti_ParentId i, ti_Name i, ti_TxID i)"
    by (simp add: NewTxRollbackDentry_def rbDentry_key_def)
  have nh: "\<not> Has rbDentry_key (txRbDentryTree mp) (rbDentry_key ?rb)"
    using assms(3) k by simp
  have a: "fst (addTxRollbackDentry mp ?rb) = OpOk"
    using nh by (simp add: addTxRollbackDentry_def)
  have d: "dentryTree ?mp1 = dentryTree mp"
    by (simp add: addTxRollbackDentry_def)
  show ?thesis
    using assms(1,2) a d add_then_delete [OF nh k]
    by (simp add: fsmTxDeleteDentry_def split_beta Let_def split: option.splits)
qed

text \<open>
  C2. \<^verbatim>\<open>fsmTxCreateDentry\<close> and \<^verbatim>\<open>fsmTxDeleteDentry\<close>: when the idempotency
  table has the transaction as done, the answer is \<open>TxInfoNotExist\<close> and the
  partition is unchanged. Otherwise, with the dentry named in the transaction: when
  the ledger already holds the rollback record of this dentry and transaction, the
  answer is \<open>Ok\<close> and the partition is unchanged (the forward mutation is not
  run); when it does not, the record is staged, the forward mutation runs, and a
  status other than \<open>Ok\<close> leaves the partition as it was before the call, the
  staged record removed again, while \<open>Ok\<close> leaves the record in the ledger.
\<close>

theorem tx_prepare_dentry:
  "(txInRMDone mp (TxID (td_TxInfo txDentry)) \<longrightarrow>
      fsmTxCreateDentry now mp txDentry = (OpTxInfoNotExistErr, mp) \<and>
      fsmTxDeleteDentry mp txDentry = (NewDentryResponse\<lparr>Status := OpTxInfoNotExistErr\<rparr>, mp)) \<and>
   (\<forall>txDenInfo.
      \<not> txInRMDone mp (TxID (td_TxInfo txDentry)) \<and>
      TxDentryInfos (td_TxInfo txDentry)
        (d_ParentId (td_Dentry txDentry), d_Name (td_Dentry txDentry)) = Some txDenInfo \<longrightarrow>
      (Has rbDentry_key (txRbDentryTree mp)
         (ti_ParentId txDenInfo, ti_Name txDenInfo, ti_TxID txDenInfo) \<longrightarrow>
         fsmTxCreateDentry now mp txDentry = (OpOk, mp) \<and>
         fsmTxDeleteDentry mp txDentry = (NewDentryResponse\<lparr>Status := OpOk\<rparr>, mp)) \<and>
      (\<not> Has rbDentry_key (txRbDentryTree mp)
         (ti_ParentId txDenInfo, ti_Name txDenInfo, ti_TxID txDenInfo) \<longrightarrow>
         (fst (fsmTxCreateDentry now mp txDentry) \<noteq> OpOk \<longrightarrow>
            fst (fsmTxCreateDentry now mp txDentry)
              = fst (fsmCreateDentry now (snd (addTxRollbackDentry mp
                  (NewTxRollbackDentry (td_Dentry txDentry) txDenInfo TxDelete))) (td_Dentry txDentry) False) \<and>
            snd (fsmTxCreateDentry now mp txDentry) = mp) \<and>
         (fst (fsmTxCreateDentry now mp txDentry) = OpOk \<longrightarrow>
            Has rbDentry_key (txRbDentryTree (snd (fsmTxCreateDentry now mp txDentry)))
              (ti_ParentId txDenInfo, ti_Name txDenInfo, ti_TxID txDenInfo)) \<and>
         (Status (fst (fsmTxDeleteDentry mp txDentry)) \<noteq> OpOk \<longrightarrow>
            snd (fsmTxDeleteDentry mp txDentry) = mp) \<and>
         (Status (fst (fsmTxDeleteDentry mp txDentry)) = OpOk \<longrightarrow>
            Has rbDentry_key (txRbDentryTree (snd (fsmTxDeleteDentry mp txDentry)))
              (ti_ParentId txDenInfo, ti_Name txDenInfo, ti_TxID txDenInfo))))"
proof (intro conjI allI impI, goal_cases)
  case 1 then show ?case by (simp add: fsmTxCreateDentry_def)
next
  case 2 then show ?case by (simp add: fsmTxDeleteDentry_def Let_def)
next
  case (3 i) then show ?case
    by (simp add: fsmTxCreateDentry_def addTxRollbackDentry_def NewTxRollbackDentry_def rbDentry_key_def)
next
  case (4 i) then show ?case
    by (simp add: fsmTxDeleteDentry_def Let_def addTxRollbackDentry_def NewTxRollbackDentry_def rbDentry_key_def)
next
  case (5 i)
  then show ?case using fsmTxCreateDentry_fresh [of mp txDentry i now] by (simp add: Let_def)
next
  case (6 i)
  then show ?case using fsmTxCreateDentry_fresh [of mp txDentry i now] by (simp add: Let_def)
next
  case (7 i)
  then show ?case
    using fsmTxCreateDentry_fresh [of mp txDentry i now]
      add_Has [of mp "NewTxRollbackDentry (td_Dentry txDentry) i TxDelete"]
    by (simp add: Let_def fsmCreateDentry_txRb NewTxRollbackDentry_def rbDentry_key_def)
next
  case (8 i)
  then show ?case using fsmTxDeleteDentry_fresh [of mp txDentry i]
    by (simp split: option.splits if_splits)
next
  case (9 i)
  then show ?case
    using fsmTxDeleteDentry_fresh [of mp txDentry i]
      add_Has [of mp "NewTxRollbackDentry (td_Dentry txDentry) i TxAdd"]
    by (auto simp: NewTxRollbackDentry_def rbDentry_key_def split: option.splits if_splits)
qed


theorem tx_prepare_dentry_witness:
  "\<not> txInRMDone S3 (TxID (td_TxInfo (txDentryOf (mkDentry 99 ''z'' 42 0x1A4)))) \<and>
   TxDentryInfos (td_TxInfo (txDentryOf (mkDentry 99 ''z'' 42 0x1A4))) (99, ''z'')
     = Some (txInfoOf 99 ''z'') \<and>
   \<not> Has rbDentry_key (txRbDentryTree S3) (99, ''z'', ''T'') \<and>
   fsmTxCreateDentry 7 S3 (txDentryOf (mkDentry 99 ''z'' 42 0x1A4)) = (OpNotExistErr, S3) \<and>
   fsmTxDeleteDentry S3 (txDentryOf (mkDentry 99 ''z'' 42 0x1A4))
     = (NewDentryResponse\<lparr>Status := OpNotExistErr\<rparr>, S3) \<and>
   txInRMDone (S3\<lparr>txIdem := [''T'' \<mapsto> Done]\<rparr>)
     (TxID (td_TxInfo (txDentryOf (mkDentry 10 ''x'' 42 0x1A4)))) \<and>
   fsmTxCreateDentry 7 (S3\<lparr>txIdem := [''T'' \<mapsto> Done]\<rparr>) (txDentryOf (mkDentry 10 ''x'' 42 0x1A4))
     = (OpTxInfoNotExistErr, S3\<lparr>txIdem := [''T'' \<mapsto> Done]\<rparr>) \<and>
   Has rbDentry_key
     (txRbDentryTree (S3\<lparr>txRbDentryTree :=
        [NewTxRollbackDentry (mkDentry 20 ''y'' 42 0x1A4) (txInfoOf 20 ''y'') TxDelete]\<rparr>))
     (20, ''y'', ''T'') \<and>
   fsmTxCreateDentry 7
     (S3\<lparr>txRbDentryTree :=
        [NewTxRollbackDentry (mkDentry 20 ''y'' 42 0x1A4) (txInfoOf 20 ''y'') TxDelete]\<rparr>)
     (txDentryOf (mkDentry 20 ''y'' 42 0x1A4))
     = (OpOk, S3\<lparr>txRbDentryTree :=
        [NewTxRollbackDentry (mkDentry 20 ''y'' 42 0x1A4) (txInfoOf 20 ''y'') TxDelete]\<rparr>)"
  using tx_prepare_dentry [of S3 "txDentryOf (mkDentry 99 ''z'' 42 0x1A4)" 7]
    tx_prepare_dentry [of "S3\<lparr>txIdem := [''T'' \<mapsto> Done]\<rparr>" "txDentryOf (mkDentry 10 ''x'' 42 0x1A4)" 7]
    tx_prepare_dentry [of "S3\<lparr>txRbDentryTree :=
        [NewTxRollbackDentry (mkDentry 20 ''y'' 42 0x1A4) (txInfoOf 20 ''y'') TxDelete]\<rparr>"
        "txDentryOf (mkDentry 20 ''y'' 42 0x1A4)" 7]
  by (simp add: S3_def txT_def txDentryOf_def txInfoOf_def txInRMDone_def emptyPartition_def
      mkDentry_def mkInode_def Has_def tree_Has_def tree_Get_def NewTxRollbackDentry_def
      rbDentry_key_def NewDentryResponse_def fsmTxCreateDentry_def fsmTxDeleteDentry_def
      addTxRollbackDentry_def deleteTxRollbackDentry_def fsmCreateDentry_def CopyGet_def Get_def
      Delete_def tree_Delete_def tree_ReplaceOrInsert_def dentry_key_def inode_key_def)

section \<open>Deleting a dentry\<close>

lemma tree_Get_filter_same: "tree_Get key (filter (\<lambda>x. key x \<noteq> k) t) k = None"
  by (simp add: tree_Get_None_all)

lemma tree_Get_filter_other:
  "q \<noteq> k \<Longrightarrow> tree_Get key (filter (\<lambda>x. key x \<noteq> k) t) q = tree_Get key t q"
  by (induction t) (auto simp: tree_Get_def)

lemma inode_key_unlink [simp]:
  "inode_key (if \<not> ShouldDelete ino then SetMtime now (if c then DecNLink ino else ino) else ino)
     = inode_key ino"
  by (simp add: inode_key_def SetMtime_def DecNLink_def)

lemma tree_modify_absent:
  "tree_Get key t k = None \<Longrightarrow> tree_modify key t k f = t"
  by (induction t) (auto simp: tree_Get_def tree_modify_def split: if_splits)

lemma tree_modify_id:
  "\<forall>x\<in>set t. key x = k \<longrightarrow> f x = x \<Longrightarrow> tree_modify key t k f = t"
  by (induction t) (auto simp: tree_modify_def)

lemmas delete_defs =
  fsmDeleteDentry_def delete_lookup_def unlinkParent_def NewDentryResponse_def getSeqFiled_def
  getSnapListLen_def Delete_def tree_Delete_def SetMtime_def DecNLink_def zeroDentry_def
  checkAndUpdateVerList_ok_def deleteVerSnapshot_top_def S1_parentDeleted_def

text \<open>
  C4, as the claim states it, fails: on S1 with the parent directory 100 marked
  deleted, deleting \<open>(100, "a")\<close> with the expected child 101 succeeds and removes
  the dentry, and the parent keeps its link count 3 and its mtime 0 (the clock reads
  7).
\<close>

theorem fsmDeleteDentry_counterexample:
  "getSeqFiled (mkDentry 100 ''a'' 101 0x1A4) = 0 \<and> verSeq S1_parentDeleted = 0 \<and>
   Status (fst (fsmDeleteDentry checkAndUpdateVerList_ok deleteVerSnapshot_top 7 S1_parentDeleted
                  (mkDentry 100 ''a'' 101 0x1A4) True)) = OpOk \<and>
   Get dentry_key (dentryTree S1_parentDeleted) (100, ''a'') = Some (mkDentry 100 ''a'' 101 0x1A4) \<and>
   Get dentry_key
     (dentryTree (snd (fsmDeleteDentry checkAndUpdateVerList_ok deleteVerSnapshot_top 7
                         S1_parentDeleted (mkDentry 100 ''a'' 101 0x1A4) True))) (100, ''a'') = None \<and>
   Get inode_key (inodeTree S1_parentDeleted) 100
     = Some ((mkInode 100 0x800001ED 3)\<lparr>i_DeleteMark := True\<rparr>) \<and>
   Get inode_key
     (inodeTree (snd (fsmDeleteDentry checkAndUpdateVerList_ok deleteVerSnapshot_top 7
                        S1_parentDeleted (mkDentry 100 ''a'' 101 0x1A4) True))) 100
     = Some ((mkInode 100 0x800001ED 3)\<lparr>i_DeleteMark := True\<rparr>) \<and>
   i_NLink ((mkInode 100 0x800001ED 3)\<lparr>i_DeleteMark := True\<rparr>) = 3 \<and>
   i_ModifyTime ((mkInode 100 0x800001ED 3)\<lparr>i_DeleteMark := True\<rparr>) = 0"
  by (simp add: delete_defs S1_defs tree_modify_def)

text \<open>
  C4, amended. \<^verbatim>\<open>fsmDeleteDentry\<close> with \<open>seq = 0\<close> and \<open>checkInode\<close>: when the
  dentry at \<open>(parent, name)\<close> is absent or holds another child than the expected
  one, the answer is \<open>NotExist\<close> and the partition is unchanged. When it holds the
  expected child and the partition has no snapshots (\<open>verSeq = 0\<close>), the answer is
  \<open>Ok\<close> with the removed dentry as message, the dentry is gone from the index and
  the other dentries read as before; a parent inode that is present and not marked
  deleted has its link count decremented and its mtime set to the clock, a parent
  that is marked deleted or absent is left as it is, and the other inodes read as
  before.
\<close>

theorem fsmDeleteDentry_top:
  assumes seq: "getSeqFiled denParm = 0"
  shows
  "((Get dentry_key (dentryTree mp) (dentry_key denParm) = None \<or>
     (\<exists>d. Get dentry_key (dentryTree mp) (dentry_key denParm) = Some d \<and> d_Inode d \<noteq> d_Inode denParm)) \<longrightarrow>
      fsmDeleteDentry chk delVer now mp denParm True = (NewDentryResponse\<lparr>Status := OpNotExistErr\<rparr>, mp)) \<and>
   (\<forall>d. verSeq mp = 0 \<and> Get dentry_key (dentryTree mp) (dentry_key denParm) = Some d \<and>
        d_Inode d = d_Inode denParm \<longrightarrow>
      (\<exists>mp'. fsmDeleteDentry chk delVer now mp denParm True = (\<lparr>Status = OpOk, Msg = d\<rparr>, mp') \<and>
         Get dentry_key (dentryTree mp') (dentry_key denParm) = None \<and>
         (\<forall>q. q \<noteq> dentry_key denParm \<longrightarrow>
              Get dentry_key (dentryTree mp') q = Get dentry_key (dentryTree mp) q) \<and>
         (\<forall>p. Get inode_key (inodeTree mp) (d_ParentId denParm) = Some p \<and> \<not> ShouldDelete p \<longrightarrow>
              Get inode_key (inodeTree mp') (d_ParentId denParm) = Some (SetMtime now (DecNLink p)) \<and>
              i_NLink (SetMtime now (DecNLink p)) = i_NLink p - 1 \<and>
              i_ModifyTime (SetMtime now (DecNLink p)) = now) \<and>
         (\<forall>p. Get inode_key (inodeTree mp) (d_ParentId denParm) = Some p \<and> ShouldDelete p \<longrightarrow>
              Get inode_key (inodeTree mp') (d_ParentId denParm) = Some p) \<and>
         (Get inode_key (inodeTree mp) (d_ParentId denParm) = None \<longrightarrow>
              inodeTree mp' = inodeTree mp) \<and>
         (\<forall>q. q \<noteq> d_ParentId denParm \<longrightarrow>
              Get inode_key (inodeTree mp') q = Get inode_key (inodeTree mp) q)))"
proof (intro conjI allI impI, goal_cases)
  case 1
  then show ?case using seq
    by (auto simp: fsmDeleteDentry_def delete_lookup_def Let_def Get_def CopyGet_def)
next
  case (2 d)
  have kd: "dentry_key d = dentry_key denParm"
    using 2 tree_Get_Some_key [of dentry_key "dentryTree mp" "dentry_key denParm" d]
    by (simp add: Get_def)
  let ?t = "filter (\<lambda>x. dentry_key x \<noteq> dentry_key denParm) (dentryTree mp)"
  let ?mp1 = "mp\<lparr>dentryTree := ?t\<rparr>"
  have ff: "filter (\<lambda>x. dentry_key x \<noteq> dentry_key denParm) ?t = ?t"
    by (simp add: filter_id_conv)
  have r: "fsmDeleteDentry chk delVer now mp denParm True
      = (\<lparr>Status = OpOk, Msg = d\<rparr>, unlinkParent now ?mp1 denParm)"
    using 2 seq kd ff
    by (simp add: fsmDeleteDentry_def delete_lookup_def Let_def Get_def CopyGet_def
        tree_Delete_def Delete_def NewDentryResponse_def)
  show ?case
    apply (rule exI [of _ "unlinkParent now ?mp1 denParm"])
    apply (intro conjI allI impI)
          apply (rule r)
         apply (simp add: unlinkParent_def Get_def tree_Get_filter_same)
        apply (simp add: unlinkParent_def Get_def tree_Get_filter_other)
       apply (simp add: unlinkParent_def Get_def tree_Get_modify_same seq)
      apply (simp add: SetMtime_def DecNLink_def)
     apply (simp add: SetMtime_def DecNLink_def)
    apply (simp add: unlinkParent_def Get_def tree_Get_modify_same seq)
    apply (simp add: unlinkParent_def Get_def tree_modify_absent)
    apply (simp add: unlinkParent_def Get_def tree_Get_modify_other)
    done
qed


theorem fsmDeleteDentry_top_witness:
  "getSeqFiled (mkDentry 100 ''a'' 101 0x1A4) = 0 \<and> verSeq S1 = 0 \<and>
   Get dentry_key (dentryTree S1) (dentry_key (mkDentry 100 ''a'' 101 0x1A4))
     = Some (mkDentry 100 ''a'' 101 0x1A4) \<and>
   Get inode_key (inodeTree S1) 100 = Some (mkInode 100 0x800001ED 3) \<and>
   \<not> ShouldDelete (mkInode 100 0x800001ED 3) \<and>
   fsmDeleteDentry checkAndUpdateVerList_ok deleteVerSnapshot_top 7 S1 (mkDentry 100 ''a'' 101 0x1A4) True
     = (\<lparr>Status = OpOk, Msg = mkDentry 100 ''a'' 101 0x1A4\<rparr>,
        S1\<lparr>dentryTree := [],
           inodeTree := [(mkInode 100 0x800001ED 2)\<lparr>i_ModifyTime := 7\<rparr>, mkInode 101 0x1A4 1]\<rparr>) \<and>
   Get dentry_key (dentryTree S1) (dentry_key (mkDentry 100 ''a'' 555 0x1A4))
     = Some (mkDentry 100 ''a'' 101 0x1A4) \<and>
   fsmDeleteDentry checkAndUpdateVerList_ok deleteVerSnapshot_top 7 S1 (mkDentry 100 ''a'' 555 0x1A4) True
     = (NewDentryResponse\<lparr>Status := OpNotExistErr\<rparr>, S1)"
  using fsmDeleteDentry_top [of "mkDentry 100 ''a'' 101 0x1A4" S1 checkAndUpdateVerList_ok
      deleteVerSnapshot_top 7]
    fsmDeleteDentry_top [of "mkDentry 100 ''a'' 555 0x1A4" S1 checkAndUpdateVerList_ok
      deleteVerSnapshot_top 7]
  by (simp add: delete_defs S1_defs tree_modify_def)

section \<open>Listing a directory\<close>

lemma range_eq_filter:
  "sorted_wrt (<) (map key t) \<Longrightarrow>
   tree_AscendRange key t lo hi = filter (\<lambda>x. lo \<le> key x \<and> key x < hi) t"
proof (induction t)
  case Nil
  then show ?case by (simp add: tree_AscendRange_def)
next
  case (Cons y ys)
  then have ih: "tree_AscendRange key ys lo hi = filter (\<lambda>x. lo \<le> key x \<and> key x < hi) ys"
    by simp
  have gt: "\<forall>z\<in>set ys. key y < key z" using Cons.prems by simp
  show ?case
  proof (cases "key y < lo")
    case True
    then show ?thesis using ih by (auto simp: tree_AscendRange_def)
  next
    case False
    have nd: "dropWhile (\<lambda>x. key x < lo) ys = ys"
      using gt False by (cases ys) auto
    show ?thesis
    proof (cases "key y < hi")
      case True
      then show ?thesis using False ih nd by (simp add: tree_AscendRange_def)
    next
      case False2: False
      have "filter (\<lambda>x. lo \<le> key x \<and> key x < hi) ys = []"
        using gt False2 by (auto simp: filter_empty_conv)
      then show ?thesis using False False2 by (simp add: tree_AscendRange_def)
    qed
  qed
qed

lemma word_less_succ: "(P::64 word) + 1 \<noteq> 0 \<Longrightarrow> p < P + 1 \<longleftrightarrow> p \<le> P"
  using unatSuc [of P] by (simp add: word_less_nat_alt word_le_nat_alt less_Suc_eq_le add.commute)

lemma dentry_range_iff:
  assumes "(P::64 word) + 1 \<noteq> 0"
  shows "((P, M) \<le> dentry_key d \<and> dentry_key d < (P + 1, [])) \<longleftrightarrow>
         (d_ParentId d = P \<and> M \<le> d_Name d)"
  using word_less_succ [OF assms, of "d_ParentId d"]
  by (auto simp: dentry_key_def less_eq_prod_def less_prod_def)

lemma scan_Cons:
  "readDirLimit_scan isEff flag req (i # rest) children =
     (case readDir_child isEff flag req i of
        None \<Rightarrow> readDirLimit_scan isEff flag req rest children
      | Some c \<Rightarrow>
          if Limit req > 0 \<and> Limit req \<le> of_nat (Suc (length children)) then children @ [c]
          else readDirLimit_scan isEff flag req rest (children @ [c]))"
  by (auto simp: readDir_child_def Let_def split: option.splits)

lemma scan_no_limit:
  "Limit req = 0 \<Longrightarrow>
   readDirLimit_scan isEff flag req items children
     = children @ List.map_filter (readDir_child isEff flag req) items"
  by (induction items arbitrary: children)
     (auto simp: scan_Cons simp del: readDirLimit_scan.simps(2) split: option.splits)

lemma scan_limit:
  "0 < Limit req \<Longrightarrow> length children < unat (Limit req) \<Longrightarrow>
   readDirLimit_scan isEff flag req items children
     = take (unat (Limit req)) (children @ List.map_filter (readDir_child isEff flag req) items)"
proof (induction items arbitrary: children)
  case Nil
  then show ?case by simp
next
  case (Cons i rest)
  show ?case
  proof (cases "readDir_child isEff flag req i")
    case None
    then show ?thesis using Cons
      by (simp add: scan_Cons del: readDirLimit_scan.simps(2))
  next
    case (Some c)
    have len: "Suc (length children) \<le> unat (Limit req)" using Cons.prems by simp
    have lt: "Suc (length children) < 2 ^ 64"
      using len unsigned_less [of "Limit req", where 'a = nat] by simp
    have un: "unat (of_nat (Suc (length children)) :: 64 word) = Suc (length children)"
      using lt by (simp add: unat_of_nat del: of_nat_Suc)
    have cmp: "Limit req \<le> of_nat (Suc (length children)) \<longleftrightarrow> unat (Limit req) = Suc (length children)"
      using len un by (simp add: word_le_nat_alt del: of_nat_Suc)
    show ?thesis
    proof (cases "unat (Limit req) = Suc (length children)")
      case True
      then show ?thesis using Some cmp Cons.prems
        by (simp add: scan_Cons del: readDirLimit_scan.simps(2) of_nat_Suc)
    next
      case False
      then have "length (children @ [c]) < unat (Limit req)" using len by simp
      from Cons.IH [OF Cons.prems(1) this] show ?thesis
        using Some cmp False by (simp add: scan_Cons del: readDirLimit_scan.simps(2) of_nat_Suc)
    qed
  qed
qed

lemma getDentryByVerSeq_Name:
  "getDentryByVerSeq i s = Some d \<Longrightarrow> d_Name d = d_Name i \<and> d_ParentId d = d_ParentId i"
  by (auto simp: getDentryByVerSeq_def getDentryFromVerList_def split: if_splits option.splits)

lemma readDir_child_Name:
  "readDir_child isEff flag req i = Some c \<Longrightarrow> pd_Name c = d_Name i"
  by (auto simp: readDir_child_def to_proto_def dest: getDentryByVerSeq_Name split: if_splits)

lemma map_filter_names_sorted:
  "sorted_wrt (<) (map d_Name items) \<Longrightarrow>
   sorted_wrt (<) (map pd_Name (List.map_filter (readDir_child isEff flag req) items))"
proof (induction items)
  case Nil
  then show ?case by simp
next
  case (Cons i rest)
  have sub: "\<forall>c\<in>set (List.map_filter (readDir_child isEff flag req) rest).
               \<exists>j\<in>set rest. pd_Name c = d_Name j"
    using readDir_child_Name [of isEff flag req] by (fastforce simp: List.map_filter_def)
  show ?case
  proof (cases "readDir_child isEff flag req i")
    case None
    then show ?thesis using Cons by simp
  next
    case (Some c)
    then have "pd_Name c = d_Name i" by (rule readDir_child_Name)
    then show ?thesis using Cons Some sub by auto
  qed
qed

lemma same_parent_names_sorted:
  "sorted_wrt (<) (map dentry_key t) \<Longrightarrow>
   sorted_wrt (<) (map d_Name (filter (\<lambda>d. d_ParentId d = P \<and> M \<le> d_Name d) t))"
proof -
  assume s: "sorted_wrt (<) (map dentry_key t)"
  let ?f = "filter (\<lambda>d. d_ParentId d = P \<and> M \<le> d_Name d) t"
  have "sorted_wrt (\<lambda>x y. dentry_key x < dentry_key y) ?f"
    using s by (simp add: sorted_wrt_map sorted_wrt_filter)
  then have "sorted_wrt (\<lambda>x y. d_Name x < d_Name y) ?f"
    by (rule sorted_wrt_mono_rel [rotated]) (auto simp: dentry_key_def less_prod_def)
  then show ?thesis by (simp add: sorted_wrt_map)
qed

lemmas listing_defs =
  S_listing_def listReq_def isEffective_always_def child_def emptyPartition_def mkDentry_def
  readDirLimit_def AscendRange_def tree_AscendRange_def dentry_key_def getDentryByVerSeq_def
  getDentryFromVerList_def isDeleted_def to_proto_def tree_ok_def less_prod_def Let_def

text \<open>
  C3, as the claim states it, fails: the scan starts at the marker itself. Listing
  directory 100 of the partition above from the marker \<open>"b"\<close> returns the entries
  \<open>"b"\<close> and \<open>"c"\<close>, and \<open>"b"\<close> is not strictly after the marker.
\<close>

theorem readDirLimit_counterexample:
  "Children (readDirLimit isEffective_always 2 S_listing (listReq ''b'' 0))
     = [child ''b'' 102, child ''c'' 103] \<and>
   \<not> Marker (listReq ''b'' 0) < pd_Name (child ''b'' 102)"
  by (simp add: listing_defs)

text \<open>
  C3, amended. On an index in strict key order and for a parent id below the
  largest \<^verbatim>\<open>uint64\<close>, \<^verbatim>\<open>readDirLimit\<close> returns, in the order of the index, what
  the dentries of the parent with a name at or after the marker contribute: each
  one its layer at the request's seq, and nothing when it has none there or when the
  version options of the request skip it; without version options this is the layer
  at seq alone. The names returned are strictly ascending; a limit above 0 keeps the
  first \<open>limit\<close> of them, and limit 0 keeps them all.
\<close>

theorem readDirLimit_paging:
  assumes ok: "tree_ok dentry_key (dentryTree mp)"
    and par: "ParentID req + 1 \<noteq> 0"
  shows
  "Children (readDirLimit isEffective FlagsVerDelDir mp req) =
     (let all = List.map_filter (readDir_child isEffective FlagsVerDelDir req)
                  (filter (\<lambda>d. d_ParentId d = ParentID req \<and> Marker req \<le> d_Name d) (dentryTree mp))
      in if Limit req = 0 then all else take (unat (Limit req)) all) \<and>
   sorted_wrt (<) (map pd_Name (Children (readDirLimit isEffective FlagsVerDelDir mp req))) \<and>
   (Limit req > 0 \<longrightarrow>
      length (Children (readDirLimit isEffective FlagsVerDelDir mp req)) \<le> unat (Limit req)) \<and>
   (VerOpt req = 0 \<longrightarrow>
      readDir_child isEffective FlagsVerDelDir req
        = (\<lambda>i. map_option to_proto (getDentryByVerSeq i (VerSeq req))))"
proof -
  let ?items = "filter (\<lambda>d. d_ParentId d = ParentID req \<and> Marker req \<le> d_Name d) (dentryTree mp)"
  let ?all = "List.map_filter (readDir_child isEffective FlagsVerDelDir req) ?items"
  have m: "(if 0 < length (Marker req) then Marker req else []) = Marker req" by simp
  have rng: "AscendRange dentry_key (dentryTree mp) (ParentID req, Marker req) (ParentID req + 1, [])
      = ?items"
    using ok dentry_range_iff [OF par]
    by (simp add: AscendRange_def tree_ok_def range_eq_filter)
  have c: "Children (readDirLimit isEffective FlagsVerDelDir mp req)
      = (if Limit req = 0 then ?all else take (unat (Limit req)) ?all)"
  proof (cases "Limit req = 0")
    case True
    then show ?thesis using rng m by (simp add: readDirLimit_def scan_no_limit)
  next
    case False
    then have p: "0 < Limit req" by (simp add: word_neq_0_conv)
    then have "0 < unat (Limit req)" by (simp add: word_less_nat_alt)
    then have "length ([]::proto_Dentry list) < unat (Limit req)" by simp
    from scan_limit [OF p this] show ?thesis using rng m False
      by (simp add: readDirLimit_def)
  qed
  have s: "sorted_wrt (<) (map pd_Name ?all)"
    using ok by (simp add: tree_ok_def same_parent_names_sorted map_filter_names_sorted)
  have s': "sorted_wrt (<) (map pd_Name (take (unat (Limit req)) ?all))"
    using s by (simp add: take_map [symmetric] sorted_wrt_take)
  show ?thesis using c s s' by (auto simp: Let_def readDir_child_def fun_eq_iff)
qed


theorem readDirLimit_paging_witness:
  "tree_ok dentry_key (dentryTree S_listing) \<and> ParentID (listReq ''b'' 1) + 1 \<noteq> 0 \<and>
   sorted_wrt (<) (map pd_Name (Children (readDirLimit isEffective_always 2 S_listing (listReq ''b'' 1)))) \<and>
   Limit (listReq ''b'' 1) > 0 \<and>
   length (Children (readDirLimit isEffective_always 2 S_listing (listReq ''b'' 1)))
     \<le> unat (Limit (listReq ''b'' 1)) \<and>
   Children (readDirLimit isEffective_always 2 S_listing (listReq ''b'' 1)) = [child ''b'' 102] \<and>
   Children (readDirLimit isEffective_always 2 S_listing (listReq [] 2))
     = [child ''a'' 101, child ''b'' 102] \<and>
   Children (readDirLimit isEffective_always 2 S_listing (listReq [] 0))
     = [child ''a'' 101, child ''b'' 102, child ''c'' 103]"
proof -
  have h1: "tree_ok dentry_key (dentryTree S_listing)"
    by (simp add: listing_defs)
  have h2: "ParentID (listReq ''b'' 1) + 1 \<noteq> 0"
    by (simp add: listReq_def)
  have h3: "Limit (listReq ''b'' 1) > 0"
    by (simp add: listReq_def)
  note t = readDirLimit_paging [OF h1 h2, of isEffective_always 2]
  have c1: "Children (readDirLimit isEffective_always 2 S_listing (listReq ''b'' 1)) = [child ''b'' 102]"
    by (simp add: listing_defs)
  have c2: "Children (readDirLimit isEffective_always 2 S_listing (listReq [] 2))
     = [child ''a'' 101, child ''b'' 102]"
    by (simp add: listing_defs word_le_nat_alt)
  have c3: "Children (readDirLimit isEffective_always 2 S_listing (listReq [] 0))
     = [child ''a'' 101, child ''b'' 102, child ''c'' 103]"
    by (simp add: listing_defs)
  show ?thesis
    using h1 h2 h3 t [THEN conjunct2, THEN conjunct1]
      t [THEN conjunct2, THEN conjunct2, THEN conjunct1, THEN mp, OF h3] c1 c2 c3
    by (intro conjI) assumption+
qed

text \<open>
  C6. \<^verbatim>\<open>ReplaceOrInsert\<close> with \<open>replace = false\<close>: on a key that is present it
  returns the existing item with \<open>ok = false\<close> and the index is the one before
  (and \<^verbatim>\<open>Create\<close> reports \<open>existsError\<close>); on a key that is absent it returns
  \<open>ok = true\<close>, the new index holds the value under its key, and every other key
  reads as before (and \<^verbatim>\<open>Create\<close> reports no error).
\<close>

theorem ReplaceOrInsert_no_replace:
  "(\<forall>item. Get key b (key k) = Some item \<longrightarrow>
       ReplaceOrInsert key b k False = (Some item, False, b) \<and>
       Create key b k False = (Some existsError, b)) \<and>
   (Get key b (key k) = None \<longrightarrow>
       (\<exists>b'. ReplaceOrInsert key b k False = (None, True, b') \<and>
             Create key b k False = (None, b') \<and>
             Get key b' (key k) = Some k \<and>
             (\<forall>q. q \<noteq> key k \<longrightarrow> Get key b' q = Get key b q)))"
  by (simp add: ReplaceOrInsert_def Create_def tree_ReplaceOrInsert_def Get_def
      tree_Get_put_same tree_Get_put_other)

theorem ReplaceOrInsert_no_replace_witness:
  "Get fst [(1::nat, ''a''), (3, ''c'')] 3 = Some (3, ''c'') \<and>
   ReplaceOrInsert fst [(1::nat, ''a''), (3, ''c'')] (3, ''x'') False
     = (Some (3, ''c''), False, [(1, ''a''), (3, ''c'')]) \<and>
   Get fst [(1::nat, ''a''), (3, ''c'')] 2 = None \<and>
   ReplaceOrInsert fst [(1::nat, ''a''), (3, ''c'')] (2, ''b'') False
     = (None, True, [(1, ''a''), (2, ''b''), (3, ''c'')])"
  using ReplaceOrInsert_no_replace [of fst "[(1::nat, ''a''), (3, ''c'')]" "(3, ''x'')"]
    ReplaceOrInsert_no_replace [of fst "[(1::nat, ''a''), (3, ''c'')]" "(2, ''b'')"]
  by (simp add: Get_def tree_Get_def ReplaceOrInsert_def tree_ReplaceOrInsert_def)

section \<open>Internal delete\<close>

lemma be_step:
  "push_bit 8 (drop_bit (k + 8) v) OR ucast (ucast (drop_bit k (v::64 word)) :: 8 word) = drop_bit k v"
  apply (rule bit_word_eqI)
  apply (simp add: bit_simps)
  apply (auto simp: not_less not_le add.commute)
  done

lemma be_first: "ucast (ucast (drop_bit 56 (v::64 word)) :: 8 word) = (drop_bit 56 v :: 64 word)"
  by (rule bit_word_eqI) (auto simp: bit_simps dest: bit_imp_le_length)

lemma BigEndian_roundtrip: "BigEndian_Uint64 (BigEndian_PutUint64 v) = v"
  using be_step [of 48 v] be_step [of 40 v] be_step [of 32 v] be_step [of 24 v]
    be_step [of 16 v] be_step [of 8 v] be_step [of 0 v]
  by (simp add: BigEndian_Uint64_def BigEndian_PutUint64_def be_first)

lemma length_PutUint64 [simp]: "length (BigEndian_PutUint64 v) = 8"
  by (simp add: BigEndian_PutUint64_def)

lemma PutUint64_ne [simp]: "BigEndian_PutUint64 v \<noteq> []"
  by (simp add: BigEndian_PutUint64_def)

lemma extend_key_probe: "extend_key \<lparr>e_inode = x, e_dataMap = d\<rparr> = x"
  by (simp add: extend_key_def)

lemma NewInode_probe: "(NewInode 0 0)\<lparr>i_Inode := v\<rparr> = NewInode v 0"
  by (simp add: NewInode_def)

lemma internalDelete_loop_encoded:
  "internalDelete_loop mp (concat (map BigEndian_PutUint64 ids))
     = (None, fold (\<lambda>i m. internalDeleteInode m (NewInode i 0)) ids mp)"
proof (induction ids arbitrary: mp)
  case Nil
  show ?case by (simp add: internalDelete_loop.simps)
next
  case (Cons i ids)
  show ?case
    using Cons [of "internalDeleteInode mp (NewInode i 0)"]
    by (subst internalDelete_loop.simps) (simp add: BigEndian_roundtrip NewInode_probe)
qed

lemma internalDeleteInode_gone:
  "Get inode_key (inodeTree (internalDeleteInode mp ino)) (i_Inode ino) = None \<and>
   i_Inode ino \<notin> set (freeList (internalDeleteInode mp ino)) \<and>
   Get extend_key (extendTree (internalDeleteInode mp ino)) (i_Inode ino) = None"
  by (simp add: internalDeleteInode_def Delete_def tree_Delete_def Get_def inode_key_def [of ino]
      extend_key_probe freeList_Remove_def tree_Get_filter_same)

lemma internalDeleteInode_other:
  "k \<noteq> i_Inode ino \<Longrightarrow>
   Get inode_key (inodeTree (internalDeleteInode mp ino)) k = Get inode_key (inodeTree mp) k \<and>
   Get extend_key (extendTree (internalDeleteInode mp ino)) k = Get extend_key (extendTree mp) k \<and>
   (k \<in> set (freeList (internalDeleteInode mp ino)) \<longleftrightarrow> k \<in> set (freeList mp))"
  by (simp add: internalDeleteInode_def Delete_def tree_Delete_def Get_def inode_key_def [of ino]
      extend_key_probe freeList_Remove_def tree_Get_filter_other)

lemma internalDeleteInode_rest:
  "dentryTree (internalDeleteInode mp ino) = dentryTree mp"
  by (simp add: internalDeleteInode_def)

text \<open>
  C10. \<^verbatim>\<open>internalDeleteInode\<close> of an inode with id \<open>i\<close> removes \<open>i\<close> from the
  inode index, from the free-list and from the extend index; the entries of the
  inode and extend indexes under every other id, and the membership of every other
  id in the free-list, are as before, and the dentry index is untouched.
  \<^verbatim>\<open>internalDelete\<close> on the encoding of a list of ids returns no error and is
  \<^verbatim>\<open>internalDeleteInode\<close> on each id in turn.
\<close>

theorem internalDelete_frame:
  "Get inode_key (inodeTree (internalDeleteInode mp ino)) (i_Inode ino) = None \<and>
   i_Inode ino \<notin> set (freeList (internalDeleteInode mp ino)) \<and>
   Get extend_key (extendTree (internalDeleteInode mp ino)) (i_Inode ino) = None \<and>
   (\<forall>k. k \<noteq> i_Inode ino \<longrightarrow>
      Get inode_key (inodeTree (internalDeleteInode mp ino)) k = Get inode_key (inodeTree mp) k \<and>
      Get extend_key (extendTree (internalDeleteInode mp ino)) k = Get extend_key (extendTree mp) k \<and>
      (k \<in> set (freeList (internalDeleteInode mp ino)) \<longleftrightarrow> k \<in> set (freeList mp))) \<and>
   dentryTree (internalDeleteInode mp ino) = dentryTree mp \<and>
   internalDelete mp (concat (map BigEndian_PutUint64 ids))
     = (None, fold (\<lambda>i m. internalDeleteInode m (NewInode i 0)) ids mp)"
proof -
  have "internalDelete mp (concat (map BigEndian_PutUint64 ids))
     = (None, fold (\<lambda>i m. internalDeleteInode m (NewInode i 0)) ids mp)"
  proof (cases ids)
    case Nil
    then show ?thesis by (simp add: internalDelete_def)
  next
    case (Cons i rest)
    then show ?thesis
      by (simp add: internalDelete_def internalDelete_loop_encoded [of mp "i # rest", simplified])
  qed
  then show ?thesis
    using internalDeleteInode_gone [of mp ino] internalDeleteInode_other [of _ ino mp]
      internalDeleteInode_rest [of mp ino]
    by blast
qed

lemmas xattr_defs =
  S_xattr_def S1_def emptyPartition_def mkInode_def internalDeleteInode_def Delete_def
  tree_Delete_def Get_def tree_Get_def inode_key_def extend_key_def freeList_Remove_def
  NewInode_def

theorem internalDelete_frame_witness:
  "internalDelete S_xattr [0, 0, 0, 0, 0, 0, 0, 101]
     = (None, S_xattr\<lparr>inodeTree := [mkInode 100 0x800001ED 3],
                      extendTree := [\<lparr>e_inode = 100, e_dataMap = [(''k'', ''v'')]\<rparr>],
                      freeList := [100]\<rparr>) \<and>
   (100::64 word) \<noteq> i_Inode (NewInode 101 0) \<and>
   Get inode_key (inodeTree (internalDeleteInode S_xattr (NewInode 101 0))) 100
     = Some (mkInode 100 0x800001ED 3) \<and>
   Get inode_key (inodeTree (internalDeleteInode S_xattr (NewInode 101 0))) 101 = None \<and>
   dentryTree (internalDeleteInode S_xattr (NewInode 101 0)) = [mkDentry 100 ''a'' 101 0x1A4]"
proof -
  note t = internalDelete_frame [of S_xattr "NewInode 101 0" "[101]"]
  have e: "concat (map BigEndian_PutUint64 [101]) = [0, 0, 0, 0, 0, 0, 0, 101]"
    by (simp add: BigEndian_PutUint64_def)
  have n: "(100::64 word) \<noteq> i_Inode (NewInode 101 0)"
    by (simp add: NewInode_def)
  have a: "internalDelete S_xattr [0, 0, 0, 0, 0, 0, 0, 101]
     = (None, S_xattr\<lparr>inodeTree := [mkInode 100 0x800001ED 3],
                      extendTree := [\<lparr>e_inode = 100, e_dataMap = [(''k'', ''v'')]\<rparr>],
                      freeList := [100]\<rparr>)"
    using t e by (simp add: xattr_defs)
  have b: "Get inode_key (inodeTree (internalDeleteInode S_xattr (NewInode 101 0))) 100
     = Some (mkInode 100 0x800001ED 3)"
    using t n by (simp add: xattr_defs)
  have c: "Get inode_key (inodeTree (internalDeleteInode S_xattr (NewInode 101 0))) 101 = None"
    using t by (simp add: NewInode_def)
  have d: "dentryTree (internalDeleteInode S_xattr (NewInode 101 0)) = [mkDentry 100 ''a'' 101 0x1A4]"
    using t by (simp add: S_xattr_def S1_def)
  show ?thesis using a n b c d by (intro conjI) assumption+
qed

section \<open>Setting attributes\<close>

text \<open>
  C9. \<^verbatim>\<open>fsmSetAttr\<close> on an inode that is absent from the inode index, or present
  and marked deleted, returns no error and leaves the partition as it was.
\<close>

theorem fsmSetAttr_absent_or_deleted:
  assumes "Get inode_key (inodeTree mp) (sa_Inode req) = None \<or>
           (\<exists>i. Get inode_key (inodeTree mp) (sa_Inode req) = Some i \<and> ShouldDelete i)"
  shows "fsmSetAttr SetAttr mp req = (None, mp)"
  using assms
  by (auto simp: fsmSetAttr_def Get_def CopyGet_def Let_def NewInode_def inode_key_def)

lemmas attr_defs =
  S1_fileDeleted_def S1_def emptyPartition_def mkInode_def attrReq_def Get_def CopyGet_def
  tree_Get_def inode_key_def ShouldDelete_def

theorem fsmSetAttr_absent_or_deleted_witness:
  "Get inode_key (inodeTree S1) (sa_Inode (attrReq 999)) = None \<and>
   fsmSetAttr SetAttr_owner S1 (attrReq 999) = (None, S1) \<and>
   Get inode_key (inodeTree S1_fileDeleted) (sa_Inode (attrReq 101))
     = Some ((mkInode 101 0x1A4 0)\<lparr>i_DeleteMark := True\<rparr>) \<and>
   ShouldDelete ((mkInode 101 0x1A4 0)\<lparr>i_DeleteMark := True\<rparr>) \<and>
   fsmSetAttr SetAttr_owner S1_fileDeleted (attrReq 101) = (None, S1_fileDeleted) \<and>
   fsmSetAttr SetAttr_owner S1 (attrReq 101)
     = (None, S1\<lparr>inodeTree := [mkInode 100 0x800001ED 3,
                                 (mkInode 101 0x1A4 1)\<lparr>i_Type := 0x180, i_Uid := 7, i_Gid := 7\<rparr>]\<rparr>)"
proof -
  have a: "Get inode_key (inodeTree S1) (sa_Inode (attrReq 999)) = None"
    by (simp add: attr_defs)
  have b: "Get inode_key (inodeTree S1_fileDeleted) (sa_Inode (attrReq 101))
     = Some ((mkInode 101 0x1A4 0)\<lparr>i_DeleteMark := True\<rparr>)"
    by (simp add: attr_defs)
  have c: "ShouldDelete ((mkInode 101 0x1A4 0)\<lparr>i_DeleteMark := True\<rparr>)"
    by (simp add: attr_defs)
  have d: "fsmSetAttr SetAttr_owner S1 (attrReq 101)
     = (None, S1\<lparr>inodeTree := [mkInode 100 0x800001ED 3,
                                 (mkInode 101 0x1A4 1)\<lparr>i_Type := 0x180, i_Uid := 7, i_Gid := 7\<rparr>]\<rparr>)"
    by (simp add: attr_defs fsmSetAttr_def NewInode_def tree_modify_def SetAttr_owner_def)
  show ?thesis
    using a b c d
      fsmSetAttr_absent_or_deleted [of S1 "attrReq 999" SetAttr_owner, OF disjI1, OF a]
      fsmSetAttr_absent_or_deleted [of S1_fileDeleted "attrReq 101" SetAttr_owner, OF disjI2]
    by (intro conjI) (assumption | blast)+
qed

section \<open>The batch handlers\<close>

lemma evict_from_acc:
  "fsmBatchEvictInode_from mp ib resp
     = (resp @ fst (fsmBatchEvictInode_from mp ib []), snd (fsmBatchEvictInode_from mp ib []))"
proof (induction ib arbitrary: mp resp)
  case Nil
  show ?case by simp
next
  case (Cons ino ib)
  show ?case
    using Cons [of "snd (fsmEvictInode mp ino)" "resp @ [fst (fsmEvictInode mp ino)]"]
      Cons [of "snd (fsmEvictInode mp ino)" "[fst (fsmEvictInode mp ino)]"]
    by (simp add: Let_def split_beta)
qed

lemma unlink_from_acc:
  "fsmUnlinkInodeBatch_from h mp ib resp
     = (resp @ fst (fsmUnlinkInodeBatch_from h mp ib []), snd (fsmUnlinkInodeBatch_from h mp ib []))"
proof (induction ib arbitrary: mp resp)
  case Nil
  show ?case by simp
next
  case (Cons ino ib)
  show ?case
    using Cons [of "snd (h mp ino 0)" "resp @ [fst (h mp ino 0)]"]
      Cons [of "snd (h mp ino 0)" "[fst (h mp ino 0)]"]
      Cons [of mp "resp @ [\<lparr>ir_Status = inodeInTx mp (i_Inode ino), ir_Msg = None\<rparr>]"]
      Cons [of mp "[\<lparr>ir_Status = inodeInTx mp (i_Inode ino), ir_Msg = None\<rparr>]"]
    by (simp add: Let_def split_beta)
qed

lemma txRbInodes_evict: "txRbInodes (snd (fsmEvictInode mp ino)) = txRbInodes mp"
  by (simp add: fsmEvictInode_def Let_def split: option.splits)

lemma inodeInTx_evict: "inodeInTx (snd (fsmEvictInode mp ino)) k = inodeInTx mp k"
  by (simp add: inodeInTx_def txRbInodes_evict)

lemma inode_key_mark [simp]: "inode_key (SetDeleteMark i) = inode_key i"
  by (simp add: inode_key_def SetDeleteMark_def)

lemma evict_other:
  assumes "k \<noteq> i_Inode ino"
  shows "Get inode_key (inodeTree (snd (fsmEvictInode mp ino))) k = Get inode_key (inodeTree mp) k \<and>
         (k \<in> set (freeList (snd (fsmEvictInode mp ino))) \<longleftrightarrow> k \<in> set (freeList mp))"
proof (cases "CopyGet inode_key (inodeTree mp) (inode_key ino)")
  case None
  then show ?thesis by (simp add: fsmEvictInode_def Let_def)
next
  case (Some i)
  then have "i_Inode i = i_Inode ino"
    using tree_Get_Some_key [of inode_key "inodeTree mp" "inode_key ino" i]
    by (simp add: CopyGet_def inode_key_def)
  then show ?thesis
    using Some assms
    by (simp add: fsmEvictInode_def Let_def Get_def freeList_Push_def tree_Get_modify_other
        inode_key_def [of ino])
qed

lemma evict_prefix:
  "\<forall>p\<in>set pre. inodeInTx mp (i_Inode p) = OpOk \<Longrightarrow>
   fsmBatchEvictInode_from mp (pre @ rest) []
     = (fst (fsmBatchEvictInode_from mp pre [])
          @ fst (fsmBatchEvictInode_from (snd (fsmBatchEvictInode_from mp pre [])) rest []),
        snd (fsmBatchEvictInode_from (snd (fsmBatchEvictInode_from mp pre [])) rest [])) \<and>
   length (fst (fsmBatchEvictInode_from mp pre [])) = length pre \<and>
   txRbInodes (snd (fsmBatchEvictInode_from mp pre [])) = txRbInodes mp \<and>
   (\<forall>k. k \<notin> i_Inode ` set pre \<longrightarrow>
      Get inode_key (inodeTree (snd (fsmBatchEvictInode_from mp pre []))) k
        = Get inode_key (inodeTree mp) k \<and>
      (k \<in> set (freeList (snd (fsmBatchEvictInode_from mp pre []))) \<longleftrightarrow> k \<in> set (freeList mp)))"
proof (induction pre arbitrary: mp)
  case Nil
  show ?case by simp
next
  case (Cons p pre)
  let ?m = "snd (fsmEvictInode mp p)"
  let ?r = "fst (fsmEvictInode mp p)"
  have ok: "inodeInTx mp (i_Inode p) = OpOk" using Cons.prems by simp
  have "\<forall>q\<in>set pre. inodeInTx ?m (i_Inode q) = OpOk"
    using Cons.prems by (simp add: inodeInTx_evict)
  note ih = Cons.IH [OF this]
  have s1: "fsmBatchEvictInode_from mp (p # pre) []
      = (?r # fst (fsmBatchEvictInode_from ?m pre []), snd (fsmBatchEvictInode_from ?m pre []))"
    using ok evict_from_acc [of ?m pre "[?r]"] by (simp add: Let_def split_beta)
  have s2: "fsmBatchEvictInode_from mp ((p # pre) @ rest) []
      = (?r # fst (fsmBatchEvictInode_from ?m (pre @ rest) []),
         snd (fsmBatchEvictInode_from ?m (pre @ rest) []))"
    using ok evict_from_acc [of ?m "pre @ rest" "[?r]"] by (simp add: Let_def split_beta)
  have f: "\<forall>k. k \<notin> i_Inode ` set (p # pre) \<longrightarrow>
      Get inode_key (inodeTree (snd (fsmBatchEvictInode_from ?m pre []))) k
        = Get inode_key (inodeTree mp) k \<and>
      (k \<in> set (freeList (snd (fsmBatchEvictInode_from ?m pre []))) \<longleftrightarrow> k \<in> set (freeList mp))"
    using ih evict_other [of _ p mp] by auto
  show ?case
    unfolding s1 s2 using ih f by (simp add: txRbInodes_evict)
qed

lemma unlink_append:
  "fsmUnlinkInodeBatch_from h mp (pre @ rest) []
     = (fst (fsmUnlinkInodeBatch_from h mp pre [])
          @ fst (fsmUnlinkInodeBatch_from h (snd (fsmUnlinkInodeBatch_from h mp pre [])) rest []),
        snd (fsmUnlinkInodeBatch_from h (snd (fsmUnlinkInodeBatch_from h mp pre [])) rest []))"
proof (induction pre arbitrary: mp)
  case Nil
  show ?case by simp
next
  case (Cons p pre)
  show ?case
  proof (cases "inodeInTx mp (i_Inode p) = OpOk")
    case True
    let ?m = "snd (h mp p 0)"
    let ?r = "fst (h mp p 0)"
    show ?thesis
      using True Cons [of ?m] unlink_from_acc [of h ?m "pre @ rest" "[?r]"]
        unlink_from_acc [of h ?m pre "[?r]"]
      by (simp add: Let_def split_beta)
  next
    case False
    let ?r = "\<lparr>ir_Status = inodeInTx mp (i_Inode p), ir_Msg = None\<rparr>"
    show ?thesis
      using False Cons [of mp] unlink_from_acc [of h mp "pre @ rest" "[?r]"]
        unlink_from_acc [of h mp pre "[?r]"]
      by (simp add: Let_def split_beta)
  qed
qed

lemma unlink_length: "length (fst (fsmUnlinkInodeBatch_from h mp ib [])) = length ib"
proof (induction ib arbitrary: mp)
  case Nil
  show ?case by simp
next
  case (Cons p ib)
  show ?case
    using Cons [of mp] Cons [of "snd (h mp p 0)"]
      unlink_from_acc [of h mp ib "[\<lparr>ir_Status = inodeInTx mp (i_Inode p), ir_Msg = None\<rparr>]"]
      unlink_from_acc [of h "snd (h mp p 0)" ib "[fst (h mp p 0)]"]
    by (simp add: Let_def split_beta)
qed

lemma inodeInTx_cases: "inodeInTx mp k \<noteq> OpOk \<Longrightarrow> inodeInTx mp k = OpTxConflictErr"
  by (simp add: inodeInTx_def split: if_splits)

text \<open>
  C8. Let \<open>x\<close> be the first inode of a batch that is in a pending transaction, after
  the inodes \<open>pre\<close> and before the inodes \<open>post\<close>. \<^verbatim>\<open>fsmBatchEvictInode\<close> answers
  with the responses for \<open>pre\<close>, one for each, followed by the in-transaction status
  for \<open>x\<close>, and nothing for \<open>post\<close>; the partition is the one after evicting
  \<open>pre\<close> alone, so that an inode that is not in \<open>pre\<close> is in the inode index and on
  the free-list as it was before. \<^verbatim>\<open>fsmUnlinkInodeBatch\<close> answers with one
  response for every inode of the batch: at an inode that is in a transaction when
  its turn comes it appends the in-transaction status, leaves the partition alone and
  goes on with \<open>post\<close>.
\<close>

theorem batch_evict_stops_unlink_continues:
  assumes pre: "\<forall>p\<in>set pre. inodeInTx mp (i_Inode p) = OpOk"
    and x: "inodeInTx mp (i_Inode x) \<noteq> OpOk"
  shows
  "fsmBatchEvictInode mp (pre @ x # post)
     = (fst (fsmBatchEvictInode mp pre) @ [\<lparr>ir_Status = OpTxConflictErr, ir_Msg = None\<rparr>],
        snd (fsmBatchEvictInode mp pre)) \<and>
   length (fst (fsmBatchEvictInode mp pre)) = length pre \<and>
   (\<forall>k. k \<notin> i_Inode ` set pre \<longrightarrow>
      Get inode_key (inodeTree (snd (fsmBatchEvictInode mp (pre @ x # post)))) k
        = Get inode_key (inodeTree mp) k \<and>
      (k \<in> set (freeList (snd (fsmBatchEvictInode mp (pre @ x # post)))) \<longleftrightarrow> k \<in> set (freeList mp))) \<and>
   (inodeInTx (snd (fsmUnlinkInodeBatch fsmUnlinkInode mp pre)) (i_Inode x) \<noteq> OpOk \<longrightarrow>
      fsmUnlinkInodeBatch fsmUnlinkInode mp (pre @ x # post)
        = (fst (fsmUnlinkInodeBatch fsmUnlinkInode mp pre)
             @ \<lparr>ir_Status = OpTxConflictErr, ir_Msg = None\<rparr>
             # fst (fsmUnlinkInodeBatch fsmUnlinkInode (snd (fsmUnlinkInodeBatch fsmUnlinkInode mp pre)) post),
           snd (fsmUnlinkInodeBatch fsmUnlinkInode (snd (fsmUnlinkInodeBatch fsmUnlinkInode mp pre)) post))) \<and>
   length (fst (fsmUnlinkInodeBatch fsmUnlinkInode mp (pre @ x # post))) = length pre + 1 + length post"
proof -
  let ?m = "snd (fsmBatchEvictInode_from mp pre [])"
  note e = evict_prefix [OF pre, of "x # post"]
  have tx: "inodeInTx ?m (i_Inode x) = OpTxConflictErr"
    using e x inodeInTx_cases [of mp "i_Inode x"] by (simp add: inodeInTx_def)
  have stop: "fsmBatchEvictInode_from ?m (x # post) []
      = ([\<lparr>ir_Status = OpTxConflictErr, ir_Msg = None\<rparr>], ?m)"
    using tx by (simp add: Let_def)
  have a: "fsmBatchEvictInode mp (pre @ x # post)
     = (fst (fsmBatchEvictInode mp pre) @ [\<lparr>ir_Status = OpTxConflictErr, ir_Msg = None\<rparr>],
        snd (fsmBatchEvictInode mp pre))"
    using e stop by (simp add: fsmBatchEvictInode_def)
  have b: "length (fst (fsmBatchEvictInode mp pre)) = length pre"
    using e by (simp add: fsmBatchEvictInode_def)
  have c: "\<forall>k. k \<notin> i_Inode ` set pre \<longrightarrow>
      Get inode_key (inodeTree (snd (fsmBatchEvictInode mp (pre @ x # post)))) k
        = Get inode_key (inodeTree mp) k \<and>
      (k \<in> set (freeList (snd (fsmBatchEvictInode mp (pre @ x # post)))) \<longleftrightarrow> k \<in> set (freeList mp))"
    unfolding a using e by (simp add: fsmBatchEvictInode_def)
  let ?u = "snd (fsmUnlinkInodeBatch_from fsmUnlinkInode mp pre [])"
  have d: "inodeInTx ?u (i_Inode x) \<noteq> OpOk \<longrightarrow>
      fsmUnlinkInodeBatch_from fsmUnlinkInode mp (pre @ x # post) []
        = (fst (fsmUnlinkInodeBatch_from fsmUnlinkInode mp pre [])
             @ \<lparr>ir_Status = OpTxConflictErr, ir_Msg = None\<rparr>
             # fst (fsmUnlinkInodeBatch_from fsmUnlinkInode ?u post []),
           snd (fsmUnlinkInodeBatch_from fsmUnlinkInode ?u post []))"
  proof
    assume n: "inodeInTx ?u (i_Inode x) \<noteq> OpOk"
    have "fsmUnlinkInodeBatch_from fsmUnlinkInode ?u (x # post) []
        = (\<lparr>ir_Status = OpTxConflictErr, ir_Msg = None\<rparr>
             # fst (fsmUnlinkInodeBatch_from fsmUnlinkInode ?u post []),
           snd (fsmUnlinkInodeBatch_from fsmUnlinkInode ?u post []))"
      using n inodeInTx_cases [OF n]
        unlink_from_acc [of fsmUnlinkInode ?u post "[\<lparr>ir_Status = OpTxConflictErr, ir_Msg = None\<rparr>]"]
      by (simp add: Let_def)
    then show "fsmUnlinkInodeBatch_from fsmUnlinkInode mp (pre @ x # post) []
        = (fst (fsmUnlinkInodeBatch_from fsmUnlinkInode mp pre [])
             @ \<lparr>ir_Status = OpTxConflictErr, ir_Msg = None\<rparr>
             # fst (fsmUnlinkInodeBatch_from fsmUnlinkInode ?u post []),
           snd (fsmUnlinkInodeBatch_from fsmUnlinkInode ?u post []))"
      using unlink_append [of fsmUnlinkInode mp pre "x # post"] by simp
  qed
  have l: "length (fst (fsmUnlinkInodeBatch fsmUnlinkInode mp (pre @ x # post))) = length pre + 1 + length post"
    by (simp add: fsmUnlinkInodeBatch_def unlink_length)
  show ?thesis
    using a b c d l by (simp only: fsmUnlinkInodeBatch_def fsmBatchEvictInode_def)
qed

lemmas batch_defs =
  S_batch_def emptyPartition_def mkInode_def inodeInTx_def fsmBatchEvictInode_def
  fsmUnlinkInodeBatch_def fsmEvictInode_def fsmUnlinkInode_mark_def NewInodeResponse_def
  CopyGet_def Get_def tree_Get_def tree_modify_def inode_key_def ShouldDelete_def IsDir_def
  ModeDir_def IsTempFile_def isEmptyVerList_def getLayerLen_def SetDeleteMark_def
  freeList_Push_def Let_def

theorem batch_evict_stops_unlink_continues_witness:
  "inodeInTx S_batch (i_Inode (mkInode 101 0 0)) = OpOk \<and>
   inodeInTx S_batch (i_Inode (mkInode 102 0 0)) \<noteq> OpOk \<and>
   fsmBatchEvictInode S_batch [mkInode 101 0 0, mkInode 102 0 0, mkInode 103 0 0]
     = ([\<lparr>ir_Status = OpOk, ir_Msg = None\<rparr>, \<lparr>ir_Status = OpTxConflictErr, ir_Msg = None\<rparr>],
        S_batch\<lparr>inodeTree := [mkInode 100 0x800001ED 2, (mkInode 101 0x1A4 0)\<lparr>i_DeleteMark := True\<rparr>,
                                  mkInode 102 0x1A4 0, mkInode 103 0x1A4 0],
                  freeList := [101]\<rparr>) \<and>
   fsmUnlinkInodeBatch fsmUnlinkInode_mark S_batch [mkInode 101 0 0, mkInode 102 0 0, mkInode 103 0 0]
     = ([\<lparr>ir_Status = OpOk, ir_Msg = Some ((mkInode 101 0x1A4 0)\<lparr>i_DeleteMark := True\<rparr>)\<rparr>,
         \<lparr>ir_Status = OpTxConflictErr, ir_Msg = None\<rparr>,
         \<lparr>ir_Status = OpOk, ir_Msg = Some ((mkInode 103 0x1A4 0)\<lparr>i_DeleteMark := True\<rparr>)\<rparr>],
        S_batch\<lparr>inodeTree := [mkInode 100 0x800001ED 2, (mkInode 101 0x1A4 0)\<lparr>i_DeleteMark := True\<rparr>,
                                  mkInode 102 0x1A4 0, (mkInode 103 0x1A4 0)\<lparr>i_DeleteMark := True\<rparr>]\<rparr>)"
proof -
  have h0: "inodeInTx S_batch (i_Inode (mkInode 101 0 0)) = OpOk"
    by (simp add: batch_defs)
  then have h1: "\<forall>p\<in>set [mkInode 101 0 0]. inodeInTx S_batch (i_Inode p) = OpOk"
    by simp
  have h2: "inodeInTx S_batch (i_Inode (mkInode 102 0 0)) \<noteq> OpOk"
    by (simp add: batch_defs)
  note t = batch_evict_stops_unlink_continues [OF h1 h2, of "[mkInode 103 0 0]" fsmUnlinkInode_mark]
  have a: "fsmBatchEvictInode S_batch [mkInode 101 0 0, mkInode 102 0 0, mkInode 103 0 0]
     = ([\<lparr>ir_Status = OpOk, ir_Msg = None\<rparr>, \<lparr>ir_Status = OpTxConflictErr, ir_Msg = None\<rparr>],
        S_batch\<lparr>inodeTree := [mkInode 100 0x800001ED 2, (mkInode 101 0x1A4 0)\<lparr>i_DeleteMark := True\<rparr>,
                                  mkInode 102 0x1A4 0, mkInode 103 0x1A4 0],
                  freeList := [101]\<rparr>)"
    using t [THEN conjunct1] by (simp add: batch_defs)
  have b: "fsmUnlinkInodeBatch fsmUnlinkInode_mark S_batch [mkInode 101 0 0, mkInode 102 0 0, mkInode 103 0 0]
     = ([\<lparr>ir_Status = OpOk, ir_Msg = Some ((mkInode 101 0x1A4 0)\<lparr>i_DeleteMark := True\<rparr>)\<rparr>,
         \<lparr>ir_Status = OpTxConflictErr, ir_Msg = None\<rparr>,
         \<lparr>ir_Status = OpOk, ir_Msg = Some ((mkInode 103 0x1A4 0)\<lparr>i_DeleteMark := True\<rparr>)\<rparr>],
        S_batch\<lparr>inodeTree := [mkInode 100 0x800001ED 2, (mkInode 101 0x1A4 0)\<lparr>i_DeleteMark := True\<rparr>,
                                  mkInode 102 0x1A4 0, (mkInode 103 0x1A4 0)\<lparr>i_DeleteMark := True\<rparr>]\<rparr>)"
    by (simp add: batch_defs)
  show ?thesis using h0 h2 a b by (intro conjI) assumption+
qed

section \<open>Truncating an inode\<close>

text \<open>
  C7. \<^verbatim>\<open>fsmExtentsTruncate\<close> on an inode that is in the index, not marked
  deleted and a directory answers \<open>ArgMismatch\<close> and returns the partition as
  it was: the inode keeps its size, mtime and extents, the reclaim channel gets no
  event and no counter of the uid manager or of the used size moves.
\<close>

theorem fsmExtentsTruncate_directory:
  assumes "Get inode_key (inodeTree mp) (inode_key ino) = Some i"
    and "\<not> ShouldDelete i"
    and "IsDir (i_Type i)"
  shows "fsmExtentsTruncate h mp ino = Inr (\<lparr>ir_Status = OpArgMismatchErr, ir_Msg = None\<rparr>, mp)"
  using assms by (simp add: fsmExtentsTruncate_def NewInodeResponse_def Let_def)

lemmas truncate_defs =
  S1_def emptyPartition_def mkInode_def truncateCmd_def NewInode_def Get_def tree_Get_def
  inode_key_def ShouldDelete_def IsDir_def ModeDir_def

theorem fsmExtentsTruncate_directory_witness:
  "Get inode_key (inodeTree S1) (inode_key (truncateCmd 100)) = Some (mkInode 100 0x800001ED 3) \<and>
   \<not> ShouldDelete (mkInode 100 0x800001ED 3) \<and>
   IsDir (i_Type (mkInode 100 0x800001ED 3)) \<and>
   fsmExtentsTruncate S6_helpers S1 (truncateCmd 100)
     = Inr (\<lparr>ir_Status = OpArgMismatchErr, ir_Msg = None\<rparr>, S1) \<and>
   fsmExtentsTruncate S6_helpers S6 (truncateCmd 101)
     = Inr (\<lparr>ir_Status = OpOk, ir_Msg = None\<rparr>,
            S6\<lparr>inodeTree := [mkInode 100 0x800001ED 3,
                              (mkInode 101 0x1A4 1)\<lparr>i_Size := 0, i_ModifyTime := 5, i_Extents := [ekA]\<rparr>]\<rparr>)"
proof -
  have a: "Get inode_key (inodeTree S1) (inode_key (truncateCmd 100)) = Some (mkInode 100 0x800001ED 3)"
    by (simp add: truncate_defs)
  have b: "\<not> ShouldDelete (mkInode 100 0x800001ED 3)"
    by (simp add: truncate_defs)
  have c: "IsDir (i_Type (mkInode 100 0x800001ED 3))"
    by (simp add: truncate_defs)
  have d: "fsmExtentsTruncate S6_helpers S6 (truncateCmd 101)
     = Inr (\<lparr>ir_Status = OpOk, ir_Msg = None\<rparr>,
            S6\<lparr>inodeTree := [mkInode 100 0x800001ED 3,
                              (mkInode 101 0x1A4 1)\<lparr>i_Size := 0, i_ModifyTime := 5, i_Extents := [ekA]\<rparr>]\<rparr>)"
    by (simp add: truncate_defs S6_def S6_helpers_def fsmExtentsTruncate_def NewInodeResponse_def
        getVer_def storeInode_def tree_modify_def Let_def)
  show ?thesis
    using a b c d fsmExtentsTruncate_directory [OF a b c, of S6_helpers]
    by (intro conjI) assumption+
qed

section \<open>Checked append of an extent\<close>

text \<open>
  On the path without split, when the charge to the uid manager is accepted and
  \<^verbatim>\<open>AppendExtentWithCheck\<close> reports a conflict, the handler answers
  \<open>ConflictExtents\<close> and the reclaim channel receives the rejected key twice: once
  from the branch on \<open>isSplit\<close> and once from the block after it.
\<close>

lemma appendWithCheck_conflict_twice:
  assumes g: "CopyGet inode_key (inodeTree mp) (inode_key ino) = Some ino2"
    and live: "\<not> ShouldDelete ino2"
    and eks: "i_Extents ino = ek # rest"
    and charge: "addUidSpace h (uidSpace mp) (i_Uid ino2) (i_Inode ino2) [ek] = (OpOk, u1)"
    and conflict: "AppendExtentWithCheck h (verSeq mp) (multiVersionList mp) (getVer ino) ek
                     (i_ModifyTime ino) rest ino2 = (del, OpConflictExtentsErr, ino2a)"
  shows "fst (fsmAppendExtentsWithCheck h mp ino False) = OpConflictExtentsErr \<and>
         extDelCh (snd (fsmAppendExtentsWithCheck h mp ino False))
           = extDelCh mp @
             [[if \<not> IsTinyExtent h (ExtentId ek) \<and> ExtentOffset ek \<ge> ExtentSize h
               then SetSplit True ek else ek],
              [if \<not> IsTinyExtent h (ExtentId ek) \<and> ExtentOffset ek \<ge> ExtentSize h
               then SetSplit True ek else ek]]"
proof (cases rest)
  case Nil
  then show ?thesis
    using g live charge conflict eks
    by (simp add: fsmAppendExtentsWithCheck_def appendWithCheck_noSplit_def Let_def
        updateUsedInfo_def storeInode_def)
next
  case (Cons a r)
  then show ?thesis
    using g live charge conflict eks
    by (simp add: fsmAppendExtentsWithCheck_def appendWithCheck_noSplit_def Let_def
        updateUsedInfo_def storeInode_def)
qed

lemmas S6_defs =
  S6_def S1_def emptyPartition_def mkInode_def S6_cmd_def NewInode_def ekA_def ekB_def
  S6_helpers_def AppendExtentWithCheck_spec_def ek_overlap_def ek_same_def ek_end_def
  ek_bytes_def CopyGet_def Get_def tree_Get_def inode_key_def ShouldDelete_def getVer_def
  SetSplit_def

text \<open>
  C5, at scenario S6. The handler answers \<open>ConflictExtents\<close> and the extent list of
  inode 101 is still \<open>[ekA]\<close>, as the claim says; the reclaim channel, empty
  before, holds the two events \<open>[ekB]\<close> and \<open>[ekB]\<close> where the claim has exactly
  one.
\<close>

theorem fsmAppendExtentsWithCheck_conflict_S6:
  "fst (fsmAppendExtentsWithCheck S6_helpers S6 S6_cmd False) = OpConflictExtentsErr \<and>
   map_option i_Extents
     (Get inode_key (inodeTree (snd (fsmAppendExtentsWithCheck S6_helpers S6 S6_cmd False))) 101)
     = Some [ekA] \<and>
   extDelCh (snd (fsmAppendExtentsWithCheck S6_helpers S6 S6_cmd False)) = [[ekB], [ekB]]"
  by (simp add: S6_defs fsmAppendExtentsWithCheck_def appendWithCheck_noSplit_def Let_def
      updateUsedInfo_def storeInode_def tree_modify_def)

end
